theory Spec2Isabelle
  imports Main "HOL-Library.Word"
begin

section \<open>Machine integers and strings\<close>

text \<open>
  Go's \<open>uint64\<close> and \<open>uint32\<close> are words; \<open>uint\<close> is taken as 64 bits wide (the
  64-bit platforms the server is built for). A conversion between the unsigned types
  is \<open>ucast\<close>: it keeps the low bits, as Go's conversion does. A Go string is a list
  of bytes.
\<close>

type_synonym uint = "64 word"
type_synonym uint64 = "64 word"
type_synonym uint32 = "32 word"

section \<open>The GitLab client of the SCM interface\<close>

text \<open>
  \<open>gitlab.VisibilityLevelValue\<close> and the options of \<open>Groups.CreateGroup\<close> (the
  fields the code sets; a pointer field that is left out is \<open>None\<close>).
\<close>

datatype VisibilityLevelValue = PrivateVisibility | InternalVisibility | PublicVisibility

record CreateGroupOptions =
  cgo_Name :: "string option"
  cgo_Path :: "string option"
  cgo_VisibilityLevel :: "VisibilityLevelValue option"

record gitlab_Group =
  group_ID :: int
  group_Path :: string
  group_AvatarURL :: string

record Directory =
  dir_ID :: uint64
  dir_Path :: string
  dir_Avatar :: string

record CreateDirectoryOptions =
  cdo_Name :: string
  cdo_Path :: string

text \<open>
  The remote side is not part of the repository. The client is its reply to a
  group-creation request (any function: the provider may refuse a colliding path,
  time out, and so on) together with the requests that have been sent to it, in order.
\<close>

record 'e gitlab_Client =
  reply_CreateGroup :: "CreateGroupOptions \<Rightarrow> 'e + gitlab_Group"
  sent_CreateGroup :: "CreateGroupOptions list"

definition Groups_CreateGroup ::
  "'e gitlab_Client \<Rightarrow> CreateGroupOptions \<Rightarrow> ('e + gitlab_Group) \<times> 'e gitlab_Client" where
  "Groups_CreateGroup client opt =
     (reply_CreateGroup client opt,
      client\<lparr>sent_CreateGroup := sent_CreateGroup client @ [opt]\<rparr>)"

definition getVisibilityLevel :: "bool \<Rightarrow> VisibilityLevelValue option" where
  "getVisibilityLevel private =
     (if private then Some PrivateVisibility else Some PublicVisibility)"

definition CreateDirectory ::
  "'e gitlab_Client \<Rightarrow> CreateDirectoryOptions \<Rightarrow> ('e + Directory) \<times> 'e gitlab_Client" where
  "CreateDirectory s opt =
     (case Groups_CreateGroup s
             \<lparr>cgo_Name = Some (cdo_Name opt),
              cgo_Path = Some (cdo_Path opt),
              cgo_VisibilityLevel = getVisibilityLevel False\<rparr> of
        (Inl err, s') \<Rightarrow> (Inl err, s')
      | (Inr grp, s') \<Rightarrow>
          (Inr \<lparr>dir_ID = word_of_int (group_ID grp),
                dir_Path = group_Path grp,
                dir_Avatar = group_AvatarURL grp\<rparr>, s'))"

section \<open>The assignment parser\<close>

subsection \<open>The descriptor and the parsed assignment\<close>

text \<open>The struct \<open>assignmentData\<close>, one field per YAML key.\<close>

record assignmentData =
  yml_AssignmentID :: uint
  yml_Name :: string
  yml_Language :: string
  yml_Deadline :: string
  yml_AutoApprove :: bool
  yml_IsGroupLab :: bool

text \<open>The protobuf timestamp: seconds since the Unix epoch, and nanoseconds.\<close>

record Timestamp =
  Seconds :: int
  Nanos :: int

text \<open>The fields of \<open>pb.Assignment\<close> that the parser sets.\<close>

record parsed_Assignment =
  pa_ID :: uint64
  pa_Course_ID :: uint64
  pa_Deadline :: Timestamp
  pa_Language :: string
  pa_Name :: string
  pa_Order :: uint32
  pa_AutoApprove :: bool
  pa_IsGroupLab :: bool

text \<open>
  The errors \<open>ParseAssignments\<close> returns, and the run-time panic of a method call
  on a nil \<open>os.FileInfo\<close>, which the function does not return from.
\<close>

datatype parse_error =
    ErrNotExist
  | ReadFileError
  | UnmarshalError
  | ParseError
  | TimestampError
  | NilFileInfoPanic

subsection \<open>\<open>time.Parse\<close> with the layout \<open>02-01-2006 15:04\<close>\<close>

text \<open>
  Go's \<open>time.Parse\<close> cuts the layout into chunks of literal text and a field: day
  (two digits), \<open>-\<close>, month (two digits), \<open>-\<close>, year (four digits), a space, hour
  (one or two digits), \<open>:\<close>, minute (two digits). The helpers below are the ones of
  the \<open>time\<close> package; the parser follows its loop for this layout. The result is the
  civil time in UTC, with seconds zero.
\<close>

record Time =
  t_year :: int
  t_month :: int
  t_day :: int
  t_hour :: int
  t_min :: int

definition digit_char :: "char \<Rightarrow> bool" where
  "digit_char c = (48 \<le> (of_char c :: nat) \<and> (of_char c :: nat) \<le> 57)"

definition digit_val :: "char \<Rightarrow> int" where
  "digit_val c = int (of_char c) - 48"

definition isDigit :: "string \<Rightarrow> nat \<Rightarrow> bool" where
  "isDigit s i = (if length s \<le> i then False else digit_char (s ! i))"

definition getnum :: "string \<Rightarrow> bool \<Rightarrow> (int \<times> string) option" where
  "getnum s fixed =
     (if \<not> isDigit s 0 then None
      else if \<not> isDigit s 1 then
        (if fixed then None else Some (digit_val (s ! 0), drop 1 s))
      else Some (digit_val (s ! 0) * 10 + digit_val (s ! 1), drop 2 s))"

definition cutspace :: "string \<Rightarrow> string" where
  "cutspace s = dropWhile (\<lambda>c. c = CHR '' '') s"

text \<open>
  \<open>skip\<close> removes the literal prefix from the input; a space of the layout stands for
  any run of spaces of the input.
\<close>

function skip :: "string \<Rightarrow> string \<Rightarrow> string option" where
  "skip v prefix =
     (if prefix = [] then Some v
      else if hd prefix = CHR '' '' then
        (if v \<noteq> [] \<and> hd v \<noteq> CHR '' '' then None
         else skip (cutspace v) (cutspace prefix))
      else if v = [] \<or> hd v \<noteq> hd prefix then None
      else skip (tl v) (tl prefix))"
  by pat_completeness auto
termination
proof (relation "measure (\<lambda>(v, prefix). length prefix)")
  show "wf (measure (\<lambda>(v, prefix). length prefix))" by simp
next
  fix v prefix :: string
  assume "prefix \<noteq> []" "hd prefix = CHR '' ''"
  then have "length (dropWhile (\<lambda>c. c = CHR '' '') prefix) < length prefix"
    by (cases prefix) (auto simp: le_imp_less_Suc length_dropWhile_le)
  then show "((cutspace v, cutspace prefix), (v, prefix)) \<in> measure (\<lambda>(v, prefix). length prefix)"
    by (simp add: cutspace_def)
next
  fix v prefix :: string
  assume "prefix \<noteq> []"
  then show "((tl v, tl prefix), (v, prefix)) \<in> measure (\<lambda>(v, prefix). length prefix)"
    by (cases prefix) auto
qed

declare skip.simps [simp del]

fun leadingInt :: "string \<Rightarrow> int \<Rightarrow> int \<times> string" where
  "leadingInt [] x = (x, [])"
| "leadingInt (c # cs) x =
     (if digit_char c then leadingInt cs (x * 10 + digit_val c) else (x, c # cs))"

definition atoi :: "string \<Rightarrow> int option" where
  "atoi s =
     (let neg = (s \<noteq> [] \<and> hd s = CHR ''-'');
          s' = (if s \<noteq> [] \<and> (hd s = CHR ''-'' \<or> hd s = CHR ''+'') then tl s else s)
      in case leadingInt s' 0 of
           (q, rem) \<Rightarrow> if rem \<noteq> [] then None else Some (if neg then - q else q))"

definition isLeap :: "int \<Rightarrow> bool" where
  "isLeap y = (y mod 4 = 0 \<and> (y mod 100 \<noteq> 0 \<or> y mod 400 = 0))"

definition daysIn :: "int \<Rightarrow> int \<Rightarrow> int" where
  "daysIn m y =
     (if m = 2 \<and> isLeap y then 29
      else [31, 28, 31, 30, 31, 30, 31, 31, 30, 31, 30, 31] ! nat (m - 1))"

definition time_Parse :: "string \<Rightarrow> parse_error + Time" where
  "time_Parse v0 =
     (case getnum v0 True of None \<Rightarrow> Inl ParseError | Some (d, v1) \<Rightarrow>
      case skip v1 ''-'' of None \<Rightarrow> Inl ParseError | Some v2 \<Rightarrow>
      case getnum v2 True of None \<Rightarrow> Inl ParseError | Some (m, v3) \<Rightarrow>
      if m \<le> 0 \<or> 12 < m then Inl ParseError else
      case skip v3 ''-'' of None \<Rightarrow> Inl ParseError | Some v4 \<Rightarrow>
      if length v4 < 4 \<or> \<not> isDigit v4 0 then Inl ParseError else
      case atoi (take 4 v4) of None \<Rightarrow> Inl ParseError | Some y \<Rightarrow>
      case skip (drop 4 v4) '' '' of None \<Rightarrow> Inl ParseError | Some v6 \<Rightarrow>
      case getnum v6 False of None \<Rightarrow> Inl ParseError | Some (h, v7) \<Rightarrow>
      if h < 0 \<or> 24 \<le> h then Inl ParseError else
      case skip v7 '':'' of None \<Rightarrow> Inl ParseError | Some v8 \<Rightarrow>
      case getnum v8 True of None \<Rightarrow> Inl ParseError | Some (mi, v9) \<Rightarrow>
      if mi < 0 \<or> 60 \<le> mi then Inl ParseError else
      if v9 \<noteq> [] then Inl ParseError else
      if d < 1 \<or> daysIn m y < d then Inl ParseError else
      Inr \<lparr>t_year = y, t_month = m, t_day = d, t_hour = h, t_min = mi\<rparr>)"

subsection \<open>\<open>tspb.TimestampProto\<close>\<close>

text \<open>
  The number of days from 1970-01-01 to a date of the proleptic Gregorian calendar,
  and the Unix time of a civil time in UTC.
\<close>

definition days_from_civil :: "int \<Rightarrow> int \<Rightarrow> int \<Rightarrow> int" where
  "days_from_civil y m d =
     (let y' = (if m \<le> 2 then y - 1 else y);
          era = y' div 400;
          yoe = y' - era * 400;
          doy = (153 * (if 2 < m then m - 3 else m + 9) + 2) div 5 + d - 1;
          doe = yoe * 365 + yoe div 4 - yoe div 100 + doy
      in era * 146097 + doe - 719468)"

definition Unix :: "Time \<Rightarrow> int" where
  "Unix t = days_from_civil (t_year t) (t_month t) (t_day t) * 86400
              + t_hour t * 3600 + t_min t * 60"

definition minValidSeconds :: int where
  "minValidSeconds = - 62135596800"

definition maxValidSeconds :: int where
  "maxValidSeconds = 253402300800"

definition TimestampProto :: "Time \<Rightarrow> parse_error + Timestamp" where
  "TimestampProto t =
     (let ts = \<lparr>Seconds = Unix t, Nanos = 0\<rparr>
      in if Seconds ts < minValidSeconds then Inl TimestampError
         else if maxValidSeconds \<le> Seconds ts then Inl TimestampError
         else Inr ts)"

subsection \<open>\<open>strings.ToLower\<close>\<close>

text \<open>
  On a string of ASCII bytes \<open>strings.ToLower\<close> maps \<open>A\<close>..\<open>Z\<close> to \<open>a\<close>..\<open>z\<close>
  and keeps every other byte. On a string with a byte from 128 on (the UTF-8 encoding
  of a rune beyond ASCII) it returns \<open>strings.Map(unicode.ToLower, s)\<close>, which
  consults Go's Unicode tables: that function is a parameter.
\<close>

definition upper_char :: "char \<Rightarrow> bool" where
  "upper_char c = (65 \<le> (of_char c :: nat) \<and> (of_char c :: nat) \<le> 90)"

definition lower_byte :: "char \<Rightarrow> char" where
  "lower_byte c = (if upper_char c then char_of (of_char c + (32 :: nat)) else c)"

definition isASCII :: "string \<Rightarrow> bool" where
  "isASCII s = list_all (\<lambda>c. (of_char c :: nat) < 128) s"

definition ToLower :: "(string \<Rightarrow> string) \<Rightarrow> string \<Rightarrow> string" where
  "ToLower Map_unicode_ToLower s =
     (if isASCII s then map lower_byte s else Map_unicode_ToLower s)"

subsection \<open>The directory tree and \<open>filepath.Walk\<close>\<close>

text \<open>
  What \<open>ioutil.ReadFile\<close> followed by \<open>yaml.Unmarshal\<close> gives for a file: the read
  fails, the decoding fails, or the descriptor is decoded. A node carries its base
  name; a directory lists its entries in the order \<open>filepath.Walk\<close> visits them
  (sorted by name). A directory that cannot be listed is one without entries: the
  callback ignores the error it is handed and returns \<open>nil\<close> for a directory.
\<close>

datatype file_content = Unreadable | Undecodable | Decoded assignmentData

datatype fs_node = File string file_content | Dir string "fs_node list"

definition target :: string where
  "target = ''assignment.yml''"

text \<open>
  The callback of the walk, with the slice \<open>assignments\<close> it appends to. Its
  \<open>info\<close> is \<open>None\<close> for a nil \<open>os.FileInfo\<close>; the callback calls
  \<open>info.IsDir()\<close> before anything else and never looks at the error it is handed.
\<close>

fun walkFn ::
  "(string \<Rightarrow> string) \<Rightarrow> uint64 \<Rightarrow> fs_node option \<Rightarrow> parsed_Assignment list \<Rightarrow>
   parse_error + parsed_Assignment list" where
  "walkFn Map_unicode_ToLower courseID None assignments = Inl NilFileInfoPanic"
| "walkFn Map_unicode_ToLower courseID (Some (Dir name entries)) assignments = Inr assignments"
| "walkFn Map_unicode_ToLower courseID (Some (File filename content)) assignments =
     (if filename = target then
        (case content of
           Unreadable \<Rightarrow> Inl ReadFileError
         | Undecodable \<Rightarrow> Inl UnmarshalError
         | Decoded newAssignment \<Rightarrow>
             (case time_Parse (yml_Deadline newAssignment) of
                Inl err \<Rightarrow> Inl err
              | Inr d \<Rightarrow>
                  (case TimestampProto d of
                     Inl err \<Rightarrow> Inl err
                   | Inr deadline \<Rightarrow>
                       Inr (assignments @
                         [\<lparr>pa_ID = ucast (yml_AssignmentID newAssignment),
                           pa_Course_ID = courseID,
                           pa_Deadline = deadline,
                           pa_Language =
                             ToLower Map_unicode_ToLower (yml_Language newAssignment),
                           pa_Name = yml_Name newAssignment,
                           pa_Order = ucast (yml_AssignmentID newAssignment),
                           pa_AutoApprove = yml_AutoApprove newAssignment,
                           pa_IsGroupLab = yml_IsGroupLab newAssignment\<rparr>]))))
      else Inr assignments)"

text \<open>
  The recursion \<open>walk\<close> of \<open>filepath.Walk\<close>: the callback on the node, then the
  entries of a directory in order; the first error ends the walk.
\<close>

fun walk ::
  "(string \<Rightarrow> string) \<Rightarrow> uint64 \<Rightarrow> fs_node \<Rightarrow> parsed_Assignment list \<Rightarrow>
   parse_error + parsed_Assignment list"
and walk_entries ::
  "(string \<Rightarrow> string) \<Rightarrow> uint64 \<Rightarrow> fs_node list \<Rightarrow> parsed_Assignment list \<Rightarrow>
   parse_error + parsed_Assignment list" where
  "walk Map_unicode_ToLower courseID (File filename content) assignments =
     walkFn Map_unicode_ToLower courseID (Some (File filename content)) assignments"
| "walk Map_unicode_ToLower courseID (Dir name entries) assignments =
     (case walkFn Map_unicode_ToLower courseID (Some (Dir name entries)) assignments of
        Inl err \<Rightarrow> Inl err
      | Inr assignments' \<Rightarrow> walk_entries Map_unicode_ToLower courseID entries assignments')"
| "walk_entries Map_unicode_ToLower courseID [] assignments = Inr assignments"
| "walk_entries Map_unicode_ToLower courseID (e # es) assignments =
     (case walk Map_unicode_ToLower courseID e assignments of
        Inl err \<Rightarrow> Inl err
      | Inr assignments' \<Rightarrow> walk_entries Map_unicode_ToLower courseID es assignments')"

text \<open>
  The file system is what \<open>os.Stat\<close> and \<open>os.Lstat\<close> answer for a path: an error
  number, or the tree rooted there (there are no symbolic links, so the two agree).
  \<open>os.IsNotExist\<close> holds of the error \<open>ENOENT\<close> only; a path below a regular file,
  for one, does not exist either and is answered with \<open>ENOTDIR\<close>.
\<close>

datatype errno = ENOENT | ENOTDIR | EACCES

definition IsNotExist :: "errno option \<Rightarrow> bool" where
  "IsNotExist err = (err = Some ENOENT)"

text \<open>
  \<open>filepath.Walk\<close>: when \<open>os.Lstat\<close> fails on the root, the callback is called with
  a nil \<open>info\<close> and the error; otherwise the tree is walked.
\<close>

definition Walk ::
  "(string \<Rightarrow> string) \<Rightarrow> uint64 \<Rightarrow> errno + fs_node \<Rightarrow> parsed_Assignment list \<Rightarrow>
   parse_error + parsed_Assignment list" where
  "Walk Map_unicode_ToLower courseID lstat assignments =
     (case lstat of
        Inl err \<Rightarrow> walkFn Map_unicode_ToLower courseID None assignments
      | Inr info \<Rightarrow> walk Map_unicode_ToLower courseID info assignments)"

definition ParseAssignments ::
  "(string \<Rightarrow> string) \<Rightarrow> (string \<Rightarrow> errno + fs_node) \<Rightarrow> string \<Rightarrow> uint64 \<Rightarrow>
   parse_error + parsed_Assignment list" where
  "ParseAssignments Map_unicode_ToLower fs dir courseID =
     (if IsNotExist (case fs dir of Inl err \<Rightarrow> Some err | Inr info \<Rightarrow> None)
      then Inl ErrNotExist
      else (case Walk Map_unicode_ToLower courseID (fs dir) [] of
              Inl err \<Rightarrow> Inl err
            | Inr assignments \<Rightarrow> Inr assignments))"

text \<open>
  The file system that holds one tree in the working directory: a path is resolved
  component by component from the name of the root, a missing entry is \<open>ENOENT\<close>, a
  component below a regular file is \<open>ENOTDIR\<close>.
\<close>

fun split_slash :: "string \<Rightarrow> string list" where
  "split_slash [] = [[]]"
| "split_slash (c # cs) =
     (if c = CHR ''/'' then [] # split_slash cs
      else (case split_slash cs of [] \<Rightarrow> [[c]] | w # ws \<Rightarrow> (c # w) # ws))"

fun node_name :: "fs_node \<Rightarrow> string" where
  "node_name (File name content) = name"
| "node_name (Dir name entries) = name"

fun lookup :: "fs_node \<Rightarrow> string list \<Rightarrow> errno + fs_node"
and lookup_entries :: "fs_node list \<Rightarrow> string \<Rightarrow> string list \<Rightarrow> errno + fs_node" where
  "lookup (File name content) [] = Inr (File name content)"
| "lookup (File name content) (c # cs) = Inl ENOTDIR"
| "lookup (Dir name entries) [] = Inr (Dir name entries)"
| "lookup (Dir name entries) (c # cs) = lookup_entries entries c cs"
| "lookup_entries [] c cs = Inl ENOENT"
| "lookup_entries (e # es) c cs =
     (if node_name e = c then lookup e cs else lookup_entries es c cs)"

definition tree_fs :: "fs_node \<Rightarrow> string \<Rightarrow> errno + fs_node" where
  "tree_fs root path =
     (case filter (\<lambda>w. w \<noteq> []) (split_slash path) of
        [] \<Rightarrow> Inl ENOENT
      | c # cs \<Rightarrow> if c = node_name root then lookup root cs else Inl ENOENT)"




section \<open>The service: errors and records\<close>

text \<open>
  A Go error of the service is a gRPC status error (a code and a message, what
  \<open>status.Errorf\<close> builds and \<open>status.FromError\<close> recognises) or any other error,
  known by its text.
\<close>

datatype codes =
    NotFound | PermissionDenied | InvalidArgument | AlreadyExists | Internal | Unimplemented

datatype error = Status codes string | Errorf string

text \<open>
  The protobuf messages, with the fields the code reads and writes. Identifiers
  (\<open>uint64\<close>) are natural numbers: the sequences that generate them stay far from
  \<open>2 ^ 64\<close>. A nested list is filled when a row is loaded and empty in the stored row.
\<close>

record GradingCriterion =
  gc_ID :: nat
  gc_BenchmarkID :: nat
  gc_Description :: string

record GradingBenchmark =
  gb_ID :: nat
  gb_AssignmentID :: nat
  gb_Heading :: string
  gb_Criteria :: "GradingCriterion list"

record Review =
  rv_ID :: nat
  rv_SubmissionID :: nat
  rv_Edited :: string

record Submission =
  sub_ID :: nat
  sub_AssignmentID :: nat
  sub_Reviews :: "Review list"

record Assignment =
  as_ID :: nat
  as_CourseID :: nat
  as_Name :: string
  as_Deadline :: string
  as_Reviewers :: uint32
  as_GradingBenchmarks :: "GradingBenchmark list"

record Course =
  crs_ID :: nat
  crs_OrganizationPath :: string

record LoadCriteriaRequest =
  lcr_AssignmentID :: nat
  lcr_CourseID :: nat

record FileOptions =
  fo_Path :: string
  fo_Owner :: string
  fo_Repository :: string

section \<open>The storage layer\<close>

text \<open>
  Modelled from the spec: the database \<open>database.GormDB\<close>, which is not among the
  sources (the service consumes it as a storage interface). It is a relational store
  in memory: one list of rows per table, and one sequence per table whose rows get
  generated identifiers. An operation of the store either fails and leaves the store
  as it is, or succeeds. The spec leaves open when a storage call fails; the service
  goes on after a failed deletion of a criterion or a benchmark, so the store can
  refuse these: it carries the identifiers of the criteria and of the benchmarks it
  does not delete (rows held by a lock or a constraint).
\<close>

record GormDB =
  courses :: "Course list"
  assignments :: "Assignment list"
  benchmarks :: "GradingBenchmark list"
  criteria :: "GradingCriterion list"
  submissions :: "Submission list"
  reviews :: "Review list"
  next_benchmark_ID :: nat
  next_criterion_ID :: nat
  next_review_ID :: nat
  undeletable_criteria :: "nat list"
  undeletable_benchmarks :: "nat list"

text \<open>Modelled from the spec: the error of a lookup that finds no record.\<close>

definition ErrRecordNotFound :: error where
  "ErrRecordNotFound = Errorf ''record not found''"

text \<open>
  Modelled from the spec: a query is a message whose set fields select the rows; a
  field left at Go's zero value does not constrain the query.
\<close>

definition matches :: "nat \<Rightarrow> nat \<Rightarrow> bool" where
  "matches q v = (q = 0 \<or> q = v)"

text \<open>Modelled from the spec: the criteria that belong to a benchmark (by BenchmarkID).\<close>

definition criteria_of :: "GormDB \<Rightarrow> nat \<Rightarrow> GradingCriterion list" where
  "criteria_of db benchmarkID = filter (\<lambda>c. gc_BenchmarkID c = benchmarkID) (criteria db)"

text \<open>
  Modelled from the spec: the benchmarks that belong to an assignment (by
  AssignmentID), each loaded with its criteria.
\<close>

definition benchmarks_of :: "GormDB \<Rightarrow> nat \<Rightarrow> GradingBenchmark list" where
  "benchmarks_of db assignmentID =
     map (\<lambda>b. b\<lparr>gb_Criteria := criteria_of db (gb_ID b)\<rparr>)
       (filter (\<lambda>b. gb_AssignmentID b = assignmentID) (benchmarks db))"

text \<open>Modelled from the spec: the reviews tied to a submission (by SubmissionID).\<close>

definition reviews_of :: "GormDB \<Rightarrow> nat \<Rightarrow> Review list" where
  "reviews_of db submissionID = filter (\<lambda>r. rv_SubmissionID r = submissionID) (reviews db)"

text \<open>
  Modelled from the spec: \<open>GetCourse\<close> resolves the course record of an identifier,
  and fails when there is none.
\<close>

definition GetCourse :: "GormDB \<Rightarrow> nat \<Rightarrow> bool \<Rightarrow> error + Course" where
  "GetCourse db courseID withInfo =
     (case find (\<lambda>c. crs_ID c = courseID) (courses db) of
        None \<Rightarrow> Inl ErrRecordNotFound
      | Some course \<Rightarrow> Inr course)"

text \<open>
  Modelled from the spec: \<open>GetAssignment\<close> gives the first assignment that matches
  the query, loaded with its benchmarks and their criteria, and fails when no
  assignment matches.
\<close>

definition GetAssignment :: "GormDB \<Rightarrow> Assignment \<Rightarrow> error + Assignment" where
  "GetAssignment db query =
     (case find (\<lambda>a. matches (as_ID query) (as_ID a) \<and>
                      matches (as_CourseID query) (as_CourseID a)) (assignments db) of
        None \<Rightarrow> Inl ErrRecordNotFound
      | Some a \<Rightarrow> Inr (a\<lparr>as_GradingBenchmarks := benchmarks_of db (as_ID a)\<rparr>))"

text \<open>
  Modelled from the spec: \<open>GetAssignmentsByCourse\<close> lists the stored assignments of
  a course, with their benchmarks when asked for.
\<close>

definition GetAssignmentsByCourse :: "GormDB \<Rightarrow> nat \<Rightarrow> bool \<Rightarrow> error + Assignment list" where
  "GetAssignmentsByCourse db courseID withGrading =
     Inr (map (\<lambda>a. if withGrading
                     then a\<lparr>as_GradingBenchmarks := benchmarks_of db (as_ID a)\<rparr> else a)
            (filter (\<lambda>a. as_CourseID a = courseID) (assignments db)))"

text \<open>
  Modelled from the spec: the upsert of one assignment. A stored assignment with the
  same (CourseID, AssignmentID) is updated in place; without one the assignment is
  inserted. No row is deleted and no other table is touched.
\<close>

definition same_key :: "Assignment \<Rightarrow> Assignment \<Rightarrow> bool" where
  "same_key a b = (as_CourseID a = as_CourseID b \<and> as_ID a = as_ID b)"

definition upsert_assignment :: "Assignment \<Rightarrow> Assignment list \<Rightarrow> Assignment list" where
  "upsert_assignment v rows =
     (let row = v\<lparr>as_GradingBenchmarks := []\<rparr>
      in if list_ex (same_key v) rows
         then map (\<lambda>r. if same_key v r then row else r) rows
         else rows @ [row])"

text \<open>
  Modelled from the spec: \<open>UpdateAssignments\<close> upserts the list into storage, one
  assignment after the other.
\<close>

definition UpdateAssignments :: "GormDB \<Rightarrow> Assignment list \<Rightarrow> error + GormDB" where
  "UpdateAssignments db vs = Inr (db\<lparr>assignments := fold upsert_assignment vs (assignments db)\<rparr>)"

text \<open>
  Modelled from the spec: \<open>CreateBenchmark\<close> inserts the benchmark row under a
  generated BenchmarkID, which the caller's message receives.
\<close>

definition CreateBenchmark ::
  "GormDB \<Rightarrow> GradingBenchmark \<Rightarrow> error + GradingBenchmark \<times> GormDB" where
  "CreateBenchmark db bm =
     (let bm' = bm\<lparr>gb_ID := next_benchmark_ID db\<rparr>
      in Inr (bm', db\<lparr>benchmarks := benchmarks db @ [bm'\<lparr>gb_Criteria := []\<rparr>],
                      next_benchmark_ID := Suc (next_benchmark_ID db)\<rparr>))"

text \<open>
  Modelled from the spec: \<open>CreateCriterion\<close> inserts the criterion row under a
  generated identifier.
\<close>

definition CreateCriterion ::
  "GormDB \<Rightarrow> GradingCriterion \<Rightarrow> error + GradingCriterion \<times> GormDB" where
  "CreateCriterion db c =
     (let c' = c\<lparr>gc_ID := next_criterion_ID db\<rparr>
      in Inr (c', db\<lparr>criteria := criteria db @ [c'],
                     next_criterion_ID := Suc (next_criterion_ID db)\<rparr>))"

text \<open>Modelled from the spec: the error of a deletion the store refuses.\<close>

definition ErrDeleteRefused :: error where
  "ErrDeleteRefused = Errorf ''database is locked''"

text \<open>
  Modelled from the spec: \<open>DeleteCriterion\<close> deletes the criterion row (by ID);
  it fails, and deletes nothing, for a criterion the store does not delete.
\<close>

definition DeleteCriterion :: "GormDB \<Rightarrow> GradingCriterion \<Rightarrow> error + GormDB" where
  "DeleteCriterion db c =
     (if gc_ID c \<in> set (undeletable_criteria db) then Inl ErrDeleteRefused
      else Inr (db\<lparr>criteria := filter (\<lambda>r. gc_ID r \<noteq> gc_ID c) (criteria db)\<rparr>))"

text \<open>
  Modelled from the spec: \<open>DeleteBenchmark\<close> deletes the benchmark row (by ID);
  it fails, and deletes nothing, for a benchmark the store does not delete.
\<close>

definition DeleteBenchmark :: "GormDB \<Rightarrow> GradingBenchmark \<Rightarrow> error + GormDB" where
  "DeleteBenchmark db bm =
     (if gb_ID bm \<in> set (undeletable_benchmarks db) then Inl ErrDeleteRefused
      else Inr (db\<lparr>benchmarks := filter (\<lambda>r. gb_ID r \<noteq> gb_ID bm) (benchmarks db)\<rparr>))"

text \<open>
  Modelled from the spec: \<open>GetSubmissions\<close> lists the submissions that match the
  query, each loaded with its reviews; none is an empty list, not an error.
\<close>

definition GetSubmissions :: "GormDB \<Rightarrow> Submission \<Rightarrow> error + Submission list" where
  "GetSubmissions db query =
     Inr (map (\<lambda>s. s\<lparr>sub_Reviews := reviews_of db (sub_ID s)\<rparr>)
            (filter (\<lambda>s. matches (sub_ID query) (sub_ID s) \<and>
                          matches (sub_AssignmentID query) (sub_AssignmentID s))
               (submissions db)))"

text \<open>
  Modelled from the spec: \<open>GetSubmission\<close> gives the first submission that matches
  the query, loaded with its reviews, and fails when no submission matches.
\<close>

definition GetSubmission :: "GormDB \<Rightarrow> Submission \<Rightarrow> error + Submission" where
  "GetSubmission db query =
     (case find (\<lambda>s. matches (sub_ID query) (sub_ID s) \<and>
                      matches (sub_AssignmentID query) (sub_AssignmentID s))
             (submissions db) of
        None \<Rightarrow> Inl ErrRecordNotFound
      | Some s \<Rightarrow> Inr (s\<lparr>sub_Reviews := reviews_of db (sub_ID s)\<rparr>))"

text \<open>
  Modelled from the spec: \<open>DeleteReview\<close> removes the reviews that match the query
  (the reviews of a submission, for a query by SubmissionID).
\<close>

definition DeleteReview :: "GormDB \<Rightarrow> Review \<Rightarrow> error + GormDB" where
  "DeleteReview db query =
     Inr (db\<lparr>reviews :=
            filter (\<lambda>r. \<not> (matches (rv_ID query) (rv_ID r) \<and>
                            matches (rv_SubmissionID query) (rv_SubmissionID r)))
              (reviews db)\<rparr>)"

text \<open>
  Modelled from the spec: \<open>CreateReview\<close> inserts the review row under a generated
  identifier.
\<close>

definition CreateReview :: "GormDB \<Rightarrow> Review \<Rightarrow> error + Review \<times> GormDB" where
  "CreateReview db r =
     (let r' = r\<lparr>rv_ID := next_review_ID db\<rparr>
      in Inr (r', db\<lparr>reviews := reviews db @ [r'],
                     next_review_ID := Suc (next_review_ID db)\<rparr>))"

text \<open>
  The sequences are ahead of the rows: every stored identifier, and every BenchmarkID
  a criterion refers to, is below the next one its sequence generates. So a generated
  identifier is fresh, and no stored criterion refers to a benchmark that does not
  exist yet.
\<close>

definition sequences_ahead :: "GormDB \<Rightarrow> bool" where
  "sequences_ahead db =
     (list_all (\<lambda>b. gb_ID b < next_benchmark_ID db) (benchmarks db) \<and>
      list_all (\<lambda>c. gc_ID c < next_criterion_ID db \<and>
                     gc_BenchmarkID c < next_benchmark_ID db) (criteria db))"

section \<open>The assignment synchronizer of the service\<close>

text \<open>
  The methods of \<open>AutograderService\<close> work on the database \<open>s.db\<close>: each takes the
  database and returns it with its result. A method that returns only an error
  returns \<open>None\<close> for \<open>nil\<close>.
\<close>

subsection \<open>\<open>getAssignments\<close>\<close>

text \<open>
  \<open>assignments.FixDeadline\<close> is not among the sources: it is a parameter. The loop
  assigns to the loaded messages; nothing is written back to the database.
\<close>

definition getAssignments ::
  "(string \<Rightarrow> string) \<Rightarrow> GormDB \<Rightarrow> nat \<Rightarrow> (error + Assignment list) \<times> GormDB" where
  "getAssignments FixDeadline db courseID =
     (case GetAssignmentsByCourse db courseID True of
        Inl err \<Rightarrow> (Inl err, db)
      | Inr allAssignments \<Rightarrow>
          (Inr (map (\<lambda>assignment. assignment\<lparr>as_Deadline := FixDeadline (as_Deadline assignment)\<rparr>)
                  allAssignments), db))"

subsection \<open>\<open>updateAssignments\<close>\<close>

text \<open>
  \<open>assignments.FetchAssignments\<close> (clone and parse the tests repository of the
  course through the SCM client) is not among the sources: it is a parameter, a
  function of the course for a fixed remote state.
\<close>

definition updateAssignments ::
  "(Course \<Rightarrow> error + Assignment list) \<Rightarrow> GormDB \<Rightarrow> nat \<Rightarrow> error option \<times> GormDB" where
  "updateAssignments FetchAssignments db courseID =
     (case GetCourse db courseID False of
        Inl err \<Rightarrow> (Some err, db)
      | Inr course \<Rightarrow>
          (case FetchAssignments course of
             Inl err \<Rightarrow> (Some err, db)
           | Inr fetched \<Rightarrow>
               (case UpdateAssignments db fetched of
                  Inl err \<Rightarrow> (Some err, db)
                | Inr db' \<Rightarrow> (None, db'))))"

subsection \<open>\<open>loadCriteria\<close> and \<open>removeOldCriteriaAndReviews\<close>\<close>

definition criteriaFile :: string where
  "criteriaFile = ''criteria.json''"

definition TestsRepo :: string where
  "TestsRepo = ''tests''"

text \<open>
  \<open>filepath.Clean\<close> on a system whose separator is \<open>/\<close>: runs of separators
  become one, \<open>.\<close> elements go, an inner \<open>..\<close> goes with the element before it, a
  \<open>..\<close> at the start of a rooted path goes, and the empty result is \<open>.\<close>. The
  elements are cleaned with the kept ones on a stack, the last one on top.
\<close>

fun clean_elements :: "bool \<Rightarrow> string list \<Rightarrow> string list \<Rightarrow> string list" where
  "clean_elements rooted [] out = rev out"
| "clean_elements rooted (e # es) out =
     (if e = [] \<or> e = ''.'' then clean_elements rooted es out
      else if e = ''..'' then
        (case out of
           [] \<Rightarrow> if rooted then clean_elements rooted es []
                 else clean_elements rooted es [''..'']
         | last_kept # below \<Rightarrow>
             if last_kept = ''..'' then clean_elements rooted es (''..'' # out)
             else clean_elements rooted es below)
      else clean_elements rooted es (e # out))"

fun join_slash :: "string list \<Rightarrow> string" where
  "join_slash [] = []"
| "join_slash [e] = e"
| "join_slash (e # es) = e @ ''/'' @ join_slash es"

definition Clean :: "string \<Rightarrow> string" where
  "Clean path =
     (if path = [] then ''.''
      else (let rooted = (hd path = CHR ''/'');
                cleaned = join_slash (clean_elements rooted (split_slash path) [])
            in if rooted then CHR ''/'' # cleaned
               else if cleaned = [] then ''.'' else cleaned))"

text \<open>
  \<open>filepath.Join\<close> of two elements: the elements from the first non-empty one on,
  joined by the separator and cleaned; the empty string when both are empty.
\<close>

definition filepath_Join :: "string \<Rightarrow> string \<Rightarrow> string" where
  "filepath_Join a b =
     (if a \<noteq> [] then Clean (a @ ''/'' @ b)
      else if b \<noteq> [] then Clean b
      else [])"

definition getAssignmentWithCourse ::
  "GormDB \<Rightarrow> Assignment \<Rightarrow> bool \<Rightarrow> error + Assignment \<times> Course" where
  "getAssignmentWithCourse db query withCourseInfo =
     (case GetAssignment db query of
        Inl err \<Rightarrow> Inl err
      | Inr assignment \<Rightarrow>
          (case GetCourse db (as_CourseID assignment) False of
             Inl err \<Rightarrow> Inl err
           | Inr course \<Rightarrow> Inr (assignment, course)))"

text \<open>
  The loops of \<open>removeOldCriteriaAndReviews\<close>. A criterion or a benchmark that
  cannot be deleted is printed and the loop goes on; a review that cannot be deleted
  ends the method with the error.
\<close>

fun removeOld_criteria :: "GormDB \<Rightarrow> GradingCriterion list \<Rightarrow> GormDB" where
  "removeOld_criteria db [] = db"
| "removeOld_criteria db (c # cs) =
     (case DeleteCriterion db c of
        Inl err \<Rightarrow> removeOld_criteria db cs
      | Inr db' \<Rightarrow> removeOld_criteria db' cs)"

fun removeOld_benchmarks :: "GormDB \<Rightarrow> GradingBenchmark list \<Rightarrow> GormDB" where
  "removeOld_benchmarks db [] = db"
| "removeOld_benchmarks db (bm # bms) =
     (let db1 = removeOld_criteria db (gb_Criteria bm)
      in case DeleteBenchmark db1 bm of
           Inl err \<Rightarrow> removeOld_benchmarks db1 bms
         | Inr db2 \<Rightarrow> removeOld_benchmarks db2 bms)"

fun removeOld_reviews :: "GormDB \<Rightarrow> Submission list \<Rightarrow> error option \<times> GormDB" where
  "removeOld_reviews db [] = (None, db)"
| "removeOld_reviews db (submission # rest) =
     (case DeleteReview db \<lparr>rv_ID = 0, rv_SubmissionID = sub_ID submission, rv_Edited = []\<rparr> of
        Inl err \<Rightarrow> (Some err, db)
      | Inr db' \<Rightarrow> removeOld_reviews db' rest)"

definition removeOldCriteriaAndReviews :: "GormDB \<Rightarrow> Assignment \<Rightarrow> error option \<times> GormDB" where
  "removeOldCriteriaAndReviews db assignment =
     (let db1 = removeOld_benchmarks db (as_GradingBenchmarks assignment)
      in case GetSubmissions db1
                \<lparr>sub_ID = 0, sub_AssignmentID = as_ID assignment, sub_Reviews = []\<rparr> of
           Inl err \<Rightarrow> (Some err, db1)
         | Inr subs \<Rightarrow> removeOld_reviews db1 subs)"

text \<open>
  The loops of \<open>loadCriteria\<close> that insert the new rubric. They return the messages
  as the loop leaves them: with the generated identifiers and the foreign keys set.
\<close>

fun loadCriteria_criteria ::
  "GormDB \<Rightarrow> nat \<Rightarrow> GradingCriterion list \<Rightarrow> (error + GradingCriterion list) \<times> GormDB" where
  "loadCriteria_criteria db benchmarkID [] = (Inr [], db)"
| "loadCriteria_criteria db benchmarkID (c # cs) =
     (case CreateCriterion db (c\<lparr>gc_BenchmarkID := benchmarkID\<rparr>) of
        Inl err \<Rightarrow> (Inl err, db)
      | Inr (c', db1) \<Rightarrow>
          (case loadCriteria_criteria db1 benchmarkID cs of
             (Inl err, db2) \<Rightarrow> (Inl err, db2)
           | (Inr cs', db2) \<Rightarrow> (Inr (c' # cs'), db2)))"

fun loadCriteria_benchmarks ::
  "GormDB \<Rightarrow> nat \<Rightarrow> GradingBenchmark list \<Rightarrow> (error + GradingBenchmark list) \<times> GormDB" where
  "loadCriteria_benchmarks db assignmentID [] = (Inr [], db)"
| "loadCriteria_benchmarks db assignmentID (bm # bms) =
     (case CreateBenchmark db (bm\<lparr>gb_AssignmentID := assignmentID\<rparr>) of
        Inl err \<Rightarrow> (Inl err, db)
      | Inr (bm', db1) \<Rightarrow>
          (case loadCriteria_criteria db1 (gb_ID bm') (gb_Criteria bm') of
             (Inl err, db2) \<Rightarrow> (Inl err, db2)
           | (Inr cs', db2) \<Rightarrow>
               (case loadCriteria_benchmarks db2 assignmentID bms of
                  (Inl err, db3) \<Rightarrow> (Inl err, db3)
                | (Inr bms', db3) \<Rightarrow> (Inr (bm'\<lparr>gb_Criteria := cs'\<rparr> # bms'), db3))))"

text \<open>
  \<open>loadCriteria\<close>. The SCM client's \<open>GetFileContent\<close> and \<open>json.Unmarshal\<close> into a
  list of benchmarks are parameters.
\<close>

definition loadCriteria ::
  "(FileOptions \<Rightarrow> error + string) \<Rightarrow> (string \<Rightarrow> error + GradingBenchmark list) \<Rightarrow>
   GormDB \<Rightarrow> LoadCriteriaRequest \<Rightarrow> (error + GradingBenchmark list) \<times> GormDB" where
  "loadCriteria GetFileContent Unmarshal db request =
     (let query = \<lparr>as_ID = lcr_AssignmentID request, as_CourseID = lcr_CourseID request,
                    as_Name = [], as_Deadline = [], as_Reviewers = 0,
                    as_GradingBenchmarks = []\<rparr>
      in case getAssignmentWithCourse db query False of
           Inl err \<Rightarrow> (Inl err, db)
         | Inr (assignment, course) \<Rightarrow>
             (let opts = \<lparr>fo_Path = filepath_Join (as_Name assignment) criteriaFile,
                           fo_Owner = crs_OrganizationPath course,
                           fo_Repository = TestsRepo\<rparr>
              in case GetFileContent opts of
                   Inl err \<Rightarrow> (Inl err, db)
                 | Inr criteriaString \<Rightarrow>
                     (case Unmarshal criteriaString of
                        Inl err \<Rightarrow> (Inl err, db)
                      | Inr parsed \<Rightarrow>
                          (case (if 0 < length (as_GradingBenchmarks assignment)
                                 then removeOldCriteriaAndReviews db assignment
                                 else (None, db)) of
                             (Some err, db1) \<Rightarrow> (Inl err, db1)
                           | (None, db1) \<Rightarrow>
                               loadCriteria_benchmarks db1 (as_ID assignment) parsed))))"

subsection \<open>\<open>createReview\<close>\<close>

text \<open>\<open>fmt\<close>'s \<open>%d\<close> of an unsigned number.\<close>

fun Itoa :: "nat \<Rightarrow> string" where
  "Itoa n = (if n < 10 then [char_of (48 + n)]
             else Itoa (n div 10) @ [char_of (48 + n mod 10)])"

text \<open>
  \<open>time.Format\<close> with the layout \<open>02 Jan 15:04\<close>: the day, the hour and the minute
  on two digits, the month by its English abbreviation.
\<close>

definition two_digits :: "int \<Rightarrow> string" where
  "two_digits n = [char_of (48 + nat n div 10), char_of (48 + nat n mod 10)]"

definition shortMonthNames :: "string list" where
  "shortMonthNames = [''Jan'', ''Feb'', ''Mar'', ''Apr'', ''May'', ''Jun'',
                      ''Jul'', ''Aug'', ''Sep'', ''Oct'', ''Nov'', ''Dec'']"

definition time_Format :: "Time \<Rightarrow> string" where
  "time_Format t =
     two_digits (t_day t) @ '' '' @ shortMonthNames ! nat (t_month t - 1) @ '' '' @
     two_digits (t_hour t) @ '':'' @ two_digits (t_min t)"

text \<open>\<open>createReview\<close>; \<open>now\<close> is what \<open>time.Now()\<close> returns.\<close>

definition createReview :: "Time \<Rightarrow> GormDB \<Rightarrow> Review \<Rightarrow> (error + Review) \<times> GormDB" where
  "createReview now db query =
     (case GetSubmission db \<lparr>sub_ID = rv_SubmissionID query, sub_AssignmentID = 0,
                             sub_Reviews = []\<rparr> of
        Inl err \<Rightarrow> (Inl err, db)
      | Inr submission \<Rightarrow>
          (case GetAssignment db \<lparr>as_ID = sub_AssignmentID submission, as_CourseID = 0,
                                  as_Name = [], as_Deadline = [], as_Reviewers = 0,
                                  as_GradingBenchmarks = []\<rparr> of
             Inl err \<Rightarrow> (Inl err, db)
           | Inr assignment \<Rightarrow>
               if unat (as_Reviewers assignment) \<le> length (sub_Reviews submission)
               then (Inl (Errorf (''Failed to create a new review for submission '' @
                                  Itoa (sub_ID submission) @ '' to assignment '' @
                                  as_Name assignment @ '': all '' @
                                  Itoa (unat (as_Reviewers assignment)) @
                                  '' reviews already created'')), db)
               else (case CreateReview db (query\<lparr>rv_Edited := time_Format now\<rparr>) of
                       Inl err \<Rightarrow> (Inl err, db)
                     | Inr (query', db') \<Rightarrow> (Inr query', db'))))"

section \<open>The service facade\<close>

text \<open>
  The operations of the facade delegate to functions of the service that are not
  among the sources (\<open>getCurrentUser\<close>, \<open>createGroup\<close>, \<open>ListAssignments\<close>,
  \<open>CreateEnrollment\<close>): each is a parameter, any function of its arguments. The
  facade logs an error before it answers; the log is not part of the answer.
\<close>

text \<open>\<open>status.FromError\<close>: whether the error is a status error.\<close>

fun FromError_ok :: "error \<Rightarrow> bool" where
  "FromError_ok (Status c msg) = True"
| "FromError_ok (Errorf msg) = False"

definition CreateGroup ::
  "(error + 'u) \<Rightarrow> ('g \<Rightarrow> 'u \<Rightarrow> error + 'g) \<Rightarrow> ('g \<Rightarrow> 'g) \<Rightarrow> 'g \<Rightarrow> error + 'g" where
  "CreateGroup getCurrentUser createGroup RemoveRemoteIDs req =
     (case getCurrentUser of
        Inl err \<Rightarrow> Inl (Status NotFound ''failed to get current user'')
      | Inr usr \<Rightarrow>
          (case createGroup req usr of
             Inl err \<Rightarrow>
               if \<not> FromError_ok err
               then Inl (Status Internal ''server error; check server logs for details'')
               else Inl err
           | Inr grp \<Rightarrow> Inr (RemoveRemoteIDs grp)))"

definition GetAssignments :: "('r \<Rightarrow> 'db \<Rightarrow> error + 'a) \<Rightarrow> 'db \<Rightarrow> 'r \<Rightarrow> error + 'a" where
  "GetAssignments ListAssignments db req = ListAssignments req db"

definition CreateEnrollment :: "('r \<Rightarrow> 'db \<Rightarrow> error option) \<Rightarrow> 'db \<Rightarrow> 'r \<Rightarrow> unit \<times> error option" where
  "CreateEnrollment CreateEnrollment_db db req = ((), CreateEnrollment_db req db)"

section \<open>Notions the properties are stated with\<close>

text \<open>
  The key of a stored assignment, and the update of one stored row by one fetched
  assignment (what the upsert does to a row that is present).
\<close>

definition assignment_key :: "Assignment \<Rightarrow> nat \<times> nat" where
  "assignment_key a = (as_CourseID a, as_ID a)"

definition update_row :: "Assignment \<Rightarrow> Assignment \<Rightarrow> Assignment" where
  "update_row v r = (if same_key v r then v\<lparr>as_GradingBenchmarks := []\<rparr> else r)"

text \<open>The rubric as the criteria file gives it: headings and descriptions, no identifiers.\<close>

definition rubric_content :: "GradingBenchmark list \<Rightarrow> (string \<times> string list) list" where
  "rubric_content bms = map (\<lambda>b. (gb_Heading b, map gc_Description (gb_Criteria b))) bms"

text \<open>
  The messages of a rubric after the insert loops: identifiers from the sequences, in
  order, and the foreign keys set.
\<close>

fun number_criteria :: "nat \<Rightarrow> nat \<Rightarrow> GradingCriterion list \<Rightarrow> GradingCriterion list" where
  "number_criteria n benchmarkID [] = []"
| "number_criteria n benchmarkID (c # cs) =
     c\<lparr>gc_BenchmarkID := benchmarkID, gc_ID := n\<rparr> # number_criteria (Suc n) benchmarkID cs"

fun number_benchmarks ::
  "nat \<Rightarrow> nat \<Rightarrow> nat \<Rightarrow> GradingBenchmark list \<Rightarrow> GradingBenchmark list" where
  "number_benchmarks nb nc assignmentID [] = []"
| "number_benchmarks nb nc assignmentID (bm # bms) =
     bm\<lparr>gb_AssignmentID := assignmentID, gb_ID := nb,
        gb_Criteria := number_criteria nc nb (gb_Criteria bm)\<rparr> #
     number_benchmarks (Suc nb) (nc + length (gb_Criteria bm)) assignmentID bms"

section \<open>Example inputs\<close>



definition tests_fs :: "fs_node list \<Rightarrow> string \<Rightarrow> errno + fs_node" where
  "tests_fs entries = tree_fs (Dir ''tests'' entries)"


text \<open>
  A database with one course, one assignment that allows one review, an old rubric
  of one benchmark with one criterion, one submission and its review; the rubric file
  of the tests repository and its decoding; the loaded assignment, the rubric and the
  database after the import; a fetch that finds two labs; and a time of day.
\<close>

definition lab_assignment :: "nat \<Rightarrow> string \<Rightarrow> string \<Rightarrow> uint32 \<Rightarrow> Assignment" where
  "lab_assignment n name deadline reviewers =
     \<lparr>as_ID = n, as_CourseID = 1, as_Name = name, as_Deadline = deadline,
      as_Reviewers = reviewers, as_GradingBenchmarks = []\<rparr>"

definition course_db :: GormDB where
  "course_db =
     \<lparr>courses = [\<lparr>crs_ID = 1, crs_OrganizationPath = ''course-org''\<rparr>],
      assignments = [lab_assignment 1 ''lab1'' ''2024-09-01T23:59:00'' 1],
      benchmarks = [\<lparr>gb_ID = 1, gb_AssignmentID = 1, gb_Heading = ''Old heading'',
                     gb_Criteria = []\<rparr>],
      criteria = [\<lparr>gc_ID = 1, gc_BenchmarkID = 1, gc_Description = ''Old criterion''\<rparr>],
      submissions = [\<lparr>sub_ID = 1, sub_AssignmentID = 1, sub_Reviews = []\<rparr>],
      reviews = [\<lparr>rv_ID = 1, rv_SubmissionID = 1, rv_Edited = ''31 Aug 10:00''\<rparr>],
      next_benchmark_ID = 2, next_criterion_ID = 2, next_review_ID = 2,
      undeletable_criteria = [], undeletable_benchmarks = []\<rparr>"

definition new_rubric :: "GradingBenchmark list" where
  "new_rubric =
     [\<lparr>gb_ID = 0, gb_AssignmentID = 0, gb_Heading = ''Code quality'',
       gb_Criteria = [\<lparr>gc_ID = 0, gc_BenchmarkID = 0, gc_Description = ''Tests pass''\<rparr>,
                      \<lparr>gc_ID = 0, gc_BenchmarkID = 0, gc_Description = ''Readable''\<rparr>]\<rparr>]"

definition tests_repo :: "FileOptions \<Rightarrow> error + string" where
  "tests_repo opts =
     (if fo_Owner opts = ''course-org'' \<and> fo_Repository opts = ''tests'' \<and>
         fo_Path opts = ''lab1/criteria.json''
      then Inr ''[rubric]'' else Inl (Errorf ''404 Not Found''))"

definition decode_rubric :: "string \<Rightarrow> error + GradingBenchmark list" where
  "decode_rubric s =
     (if s = ''[rubric]'' then Inr new_rubric
      else Inl (Errorf ''unexpected end of JSON input''))"


definition lab1_loaded :: Assignment where
  "lab1_loaded =
     (lab_assignment 1 ''lab1'' ''2024-09-01T23:59:00'' 1)
       \<lparr>as_GradingBenchmarks :=
          [\<lparr>gb_ID = 1, gb_AssignmentID = 1, gb_Heading = ''Old heading'',
            gb_Criteria = [\<lparr>gc_ID = 1, gc_BenchmarkID = 1,
                            gc_Description = ''Old criterion''\<rparr>]\<rparr>]\<rparr>"

definition stored_rubric :: "GradingBenchmark list" where
  "stored_rubric =
     [\<lparr>gb_ID = 2, gb_AssignmentID = 1, gb_Heading = ''Code quality'',
       gb_Criteria = [\<lparr>gc_ID = 2, gc_BenchmarkID = 2, gc_Description = ''Tests pass''\<rparr>,
                      \<lparr>gc_ID = 3, gc_BenchmarkID = 2, gc_Description = ''Readable''\<rparr>]\<rparr>]"

definition imported_db :: GormDB where
  "imported_db =
     course_db
       \<lparr>benchmarks := [\<lparr>gb_ID = 2, gb_AssignmentID = 1, gb_Heading = ''Code quality'',
                        gb_Criteria = []\<rparr>],
        criteria := [\<lparr>gc_ID = 2, gc_BenchmarkID = 2, gc_Description = ''Tests pass''\<rparr>,
                     \<lparr>gc_ID = 3, gc_BenchmarkID = 2, gc_Description = ''Readable''\<rparr>],
        reviews := [], next_benchmark_ID := 3, next_criterion_ID := 4\<rparr>"

definition fetch_two_labs :: "Course \<Rightarrow> error + Assignment list" where
  "fetch_two_labs course =
     Inr [lab_assignment 1 ''lab1'' ''2024-09-01T23:59:00'' 1,
          lab_assignment 2 ''lab2'' ''2024-10-01T23:59:00'' 1]"

definition evening :: Time where
  "evening = \<lparr>t_year = 2024, t_month = 9, t_day = 1, t_hour = 21, t_min = 5\<rparr>"

section \<open>Properties of the parser and of the GitLab client\<close>









lemma time_Parse_example:
  "time_Parse ''01-09-2024 23:59'' =
     Inr \<lparr>t_year = 2024, t_month = 9, t_day = 1, t_hour = 23, t_min = 59\<rparr>"
  by code_simp


lemma TimestampProto_example:
  "TimestampProto \<lparr>t_year = 2024, t_month = 9, t_day = 1, t_hour = 23, t_min = 59\<rparr> =
     Inr \<lparr>Seconds = 1725235140, Nanos = 0\<rparr>"
  by (simp add: TimestampProto_def Unix_def days_from_civil_def minValidSeconds_def
      maxValidSeconds_def)


lemma ToLower_go: "ToLower U ''go'' = ''go''" "ToLower U ''Go'' = ''go''"
proof -
  have "isASCII ''go''" "isASCII ''Go''"
    by code_simp+
  moreover have "map lower_byte ''go'' = ''go''" "map lower_byte ''Go'' = ''go''"
    by code_simp+
  ultimately show "ToLower U ''go'' = ''go''" "ToLower U ''Go'' = ''go''"
    by (simp_all add: ToLower_def)
qed

lemma tree_fs_root: "tree_fs (Dir ''tests'' entries) ''tests'' = Inr (Dir ''tests'' entries)"
  by (simp add: tree_fs_def)


lemma tests_fs_missing: "tests_fs entries ''missing'' = Inl ENOENT"
  by (simp add: tests_fs_def tree_fs_def)

lemma ParseAssignments_walks:
  "fs dir = Inr root \<Longrightarrow>
   ParseAssignments U fs dir courseID = walk U courseID root []"
  by (simp add: ParseAssignments_def IsNotExist_def Walk_def split: sum.splits)

lemma ParseAssignments_tree_fs:
  "ParseAssignments U (tree_fs (Dir ''tests'' entries)) ''tests'' courseID =
     walk U courseID (Dir ''tests'' entries) []"
  using tree_fs_root by (rule ParseAssignments_walks)




text \<open>
  When \<open>os.Stat\<close> reports that nothing exists at the root path, \<open>ParseAssignments\<close>
  returns that error and walks nothing. When \<open>os.Stat\<close> fails in another way, the
  guard lets the call through: \<open>filepath.Walk\<close> gets the same error from \<open>os.Lstat\<close>
  and calls the callback with a nil \<open>FileInfo\<close>, on which the callback calls \<open>IsDir\<close>
  without looking at the error it was handed.
\<close>

lemma ParseAssignments_missing_root:
  assumes "fs dir = Inl ENOENT"
  shows "ParseAssignments U fs dir courseID = Inl ErrNotExist"
  using assms by (simp add: ParseAssignments_def IsNotExist_def)

lemma ParseAssignments_missing_root_example:
  "tests_fs [] ''missing'' = Inl ENOENT \<and>
   ParseAssignments id (tests_fs []) ''missing'' 7 = Inl ErrNotExist"
  using ParseAssignments_missing_root [of "tests_fs []" "''missing''" id 7]
  by (simp add: tests_fs_missing)

lemma ParseAssignments_uninspectable_root:
  assumes "fs dir = Inl err" and "err \<noteq> ENOENT"
  shows "ParseAssignments U fs dir courseID = Inl NilFileInfoPanic"
  using assms by (simp add: ParseAssignments_def IsNotExist_def Walk_def)

text \<open>
  C6. A root path that does not exist is not always answered with the not-exist error.
  In the tree below \<open>tests/README.md\<close> is a regular file, so nothing exists at
  \<open>tests/README.md/labs\<close>; \<open>os.Stat\<close> reports \<open>ENOTDIR\<close> for it, of which
  \<open>os.IsNotExist\<close> is false. \<open>ParseAssignments\<close> passes its guard, starts the walk, and
  the callback dereferences the nil \<open>FileInfo\<close> that \<open>filepath.Walk\<close> hands it: the call
  panics instead of returning an error.
\<close>

theorem ParseAssignments_below_file_panics:
  "tests_fs [File ''README.md'' Unreadable] ''tests/README.md/labs'' = Inl ENOTDIR \<and>
   ParseAssignments U (tests_fs [File ''README.md'' Unreadable]) ''tests/README.md/labs''
     courseID = Inl NilFileInfoPanic"
proof -
  have "tests_fs [File ''README.md'' Unreadable] ''tests/README.md/labs'' = Inl ENOTDIR"
    by (simp add: tests_fs_def tree_fs_def)
  then show ?thesis
    by (simp add: ParseAssignments_uninspectable_root)
qed

text \<open>
  C5. The tests repository with the single descriptor \<open>lab1/assignment.yml\<close> of the
  example parses to one assignment: ID 1, name Lab 1, language go, auto-approve set,
  group lab unset, order 1, and the deadline 2024-09-01 23:59:00 UTC, which is second
  1725235140 of the Unix epoch.
\<close>

theorem ParseAssignments_lab1_example:
  "time_Parse ''01-09-2024 23:59'' =
     Inr \<lparr>t_year = 2024, t_month = 9, t_day = 1, t_hour = 23, t_min = 59\<rparr> \<and>
   ParseAssignments U
     (tree_fs (Dir ''tests'' [Dir ''lab1'' [File ''assignment.yml''
        (Decoded \<lparr>yml_AssignmentID = 1, yml_Name = ''Lab 1'', yml_Language = ''go'',
                  yml_Deadline = ''01-09-2024 23:59'', yml_AutoApprove = True,
                  yml_IsGroupLab = False\<rparr>)]]))
     ''tests'' courseID =
   Inr [\<lparr>pa_ID = 1, pa_Course_ID = courseID,
         pa_Deadline = \<lparr>Seconds = 1725235140, Nanos = 0\<rparr>,
         pa_Language = ''go'', pa_Name = ''Lab 1'', pa_Order = 1,
         pa_AutoApprove = True, pa_IsGroupLab = False\<rparr>]"
  unfolding ParseAssignments_tree_fs
  by (simp add: target_def time_Parse_example TimestampProto_example ToLower_go)

theorem ParseAssignments_lab1_example_witness:
  "ParseAssignments id
     (tree_fs (Dir ''tests'' [Dir ''lab1'' [File ''assignment.yml''
        (Decoded \<lparr>yml_AssignmentID = 1, yml_Name = ''Lab 1'', yml_Language = ''go'',
                  yml_Deadline = ''01-09-2024 23:59'', yml_AutoApprove = True,
                  yml_IsGroupLab = False\<rparr>)]]))
     ''tests'' 7 =
   Inr [\<lparr>pa_ID = 1, pa_Course_ID = 7,
         pa_Deadline = \<lparr>Seconds = 1725235140, Nanos = 0\<rparr>,
         pa_Language = ''go'', pa_Name = ''Lab 1'', pa_Order = 1,
         pa_AutoApprove = True, pa_IsGroupLab = False\<rparr>]"
  using ParseAssignments_lab1_example [of id 7] by simp

text \<open>
  C9. \<open>CreateDirectory\<close> sends the provider exactly one group-creation request; the
  request asks for public visibility, and no request it sends asks for private
  visibility.
\<close>

theorem CreateDirectory_public:
  "sent_CreateGroup (snd (CreateDirectory s opt)) =
     sent_CreateGroup s @
       [\<lparr>cgo_Name = Some (cdo_Name opt), cgo_Path = Some (cdo_Path opt),
         cgo_VisibilityLevel = Some PublicVisibility\<rparr>] \<and>
   Some PrivateVisibility \<notin>
     cgo_VisibilityLevel ` set (drop (length (sent_CreateGroup s))
                                 (sent_CreateGroup (snd (CreateDirectory s opt))))"
  by (simp add: CreateDirectory_def Groups_CreateGroup_def getVisibilityLevel_def
      split: sum.split)




section \<open>Properties of the synchronizer\<close>

subsection \<open>The upsert of assignments\<close>

lemma same_key_iff: "same_key a b \<longleftrightarrow> assignment_key a = assignment_key b"
  by (auto simp: same_key_def assignment_key_def)

lemma list_ex_same_key:
  "list_ex (same_key v) rows \<longleftrightarrow> assignment_key v \<in> set (map assignment_key rows)"
  by (auto simp: list_ex_iff same_key_iff)

lemma update_row_key: "assignment_key (update_row v r) = assignment_key r"
  by (simp add: update_row_def same_key_iff assignment_key_def)

lemma fold_update_row_key: "assignment_key (fold update_row vs r) = assignment_key r"
  by (induction vs arbitrary: r) (simp_all add: update_row_key)

lemma upsert_present:
  "list_ex (same_key v) rows \<Longrightarrow> upsert_assignment v rows = map (update_row v) rows"
  by (simp add: upsert_assignment_def Let_def update_row_def)

lemma upsert_absent:
  "\<not> list_ex (same_key v) rows \<Longrightarrow>
   upsert_assignment v rows = rows @ [v\<lparr>as_GradingBenchmarks := []\<rparr>]"
  by (simp add: upsert_assignment_def Let_def)

lemma upsert_assignment_keys:
  "map assignment_key (upsert_assignment v rows) =
     (if assignment_key v \<in> set (map assignment_key rows) then map assignment_key rows
      else map assignment_key rows @ [assignment_key v])"
proof (cases "list_ex (same_key v) rows")
  case True
  then show ?thesis
    by (simp add: upsert_present list_ex_same_key comp_def update_row_key)
next
  case False
  then show ?thesis
    by (simp add: upsert_absent list_ex_same_key assignment_key_def)
qed

lemma fold_upsert_keys:
  "set (map assignment_key (fold upsert_assignment vs rows)) =
     set (map assignment_key vs) \<union> set (map assignment_key rows)"
proof (induction vs arbitrary: rows)
  case Nil
  show ?case by simp
next
  case (Cons v vs)
  have "set (map assignment_key (upsert_assignment v rows)) =
      insert (assignment_key v) (set (map assignment_key rows))"
    unfolding upsert_assignment_keys by auto
  with Cons.IH [of "upsert_assignment v rows"] show ?case by auto
qed

lemma upsert_assignment_distinct:
  "distinct (map assignment_key rows) \<Longrightarrow>
   distinct (map assignment_key (upsert_assignment v rows))"
  unfolding upsert_assignment_keys by simp

lemma fold_upsert_distinct:
  "distinct (map assignment_key rows) \<Longrightarrow>
   distinct (map assignment_key (fold upsert_assignment vs rows))"
  by (induction vs arbitrary: rows) (simp_all add: upsert_assignment_distinct)

lemma fold_upsert_present:
  "\<forall>v\<in>set vs. list_ex (same_key v) rows \<Longrightarrow>
   fold upsert_assignment vs rows = map (fold update_row vs) rows"
proof (induction vs arbitrary: rows)
  case Nil
  show ?case by simp
next
  case (Cons v vs)
  have p: "\<forall>w\<in>set vs. list_ex (same_key w) (map (update_row v) rows)"
    using Cons.prems by (simp add: list_ex_same_key comp_def update_row_key)
  show ?case
    using Cons.prems Cons.IH[OF p] by (simp add: upsert_present comp_def)
qed

lemma upsert_rows:
  "r \<in> set (upsert_assignment v rows) \<Longrightarrow>
   r = v\<lparr>as_GradingBenchmarks := []\<rparr> \<or> (r \<in> set rows \<and> \<not> same_key v r)"
  by (auto simp: upsert_assignment_def Let_def list_ex_iff split: if_splits)

lemma fold_upsert_stable:
  "r \<in> set (fold upsert_assignment vs rows) \<Longrightarrow> fold update_row vs r = r"
proof (induction vs arbitrary: r rule: rev_induct)
  case Nil
  show ?case by simp
next
  case (snoc v vs)
  have step: "fold update_row (vs @ [v]) r = update_row v (fold update_row vs r)"
    by simp
  from snoc.prems have "r \<in> set (upsert_assignment v (fold upsert_assignment vs rows))"
    by simp
  then consider (new) "r = v\<lparr>as_GradingBenchmarks := []\<rparr>"
    | (old) "r \<in> set (fold upsert_assignment vs rows)" "\<not> same_key v r"
    using upsert_rows by blast
  then show ?case
  proof cases
    case new
    have "assignment_key (fold update_row vs r) = assignment_key v"
      unfolding fold_update_row_key by (simp add: new assignment_key_def)
    then have "same_key v (fold update_row vs r)"
      by (simp add: same_key_iff)
    then have "update_row v (fold update_row vs r) = r"
      unfolding update_row_def new by simp
    with step show ?thesis by simp
  next
    case old
    from old(1) have "fold update_row vs r = r" by (rule snoc.IH)
    with old(2) have "update_row v (fold update_row vs r) = r"
      by (simp add: update_row_def)
    with step show ?thesis by simp
  qed
qed

lemma fold_upsert_idem:
  "fold upsert_assignment vs (fold upsert_assignment vs rows) = fold upsert_assignment vs rows"
proof -
  have "\<forall>v\<in>set vs. list_ex (same_key v) (fold upsert_assignment vs rows)"
    unfolding list_ex_same_key fold_upsert_keys by simp
  then have "fold upsert_assignment vs (fold upsert_assignment vs rows) =
      map (fold update_row vs) (fold upsert_assignment vs rows)"
    by (rule fold_upsert_present)
  also have "\<dots> = fold upsert_assignment vs rows"
    by (rule map_idI) (rule fold_upsert_stable)
  finally show ?thesis .
qed

text \<open>
  C2. For a fixed remote state, a second run of \<open>updateAssignments\<close> on the database
  the first run left returns what the first run returned and leaves that database as
  it is: no row is added and no row changes. Keys (CourseID, AssignmentID) that are
  distinct before a run are distinct after it.
\<close>

theorem updateAssignments_idempotent:
  "updateAssignments FetchAssignments (snd (updateAssignments FetchAssignments db courseID)) courseID =
     updateAssignments FetchAssignments db courseID \<and>
   (distinct (map assignment_key (assignments db)) \<longrightarrow>
    distinct (map assignment_key
       (assignments (snd (updateAssignments FetchAssignments db courseID)))))"
  by (auto simp: updateAssignments_def GetCourse_def UpdateAssignments_def fold_upsert_idem
      fold_upsert_distinct split: option.splits sum.splits)

theorem updateAssignments_idempotent_witness:
  "distinct (map assignment_key (assignments course_db)) \<and>
   updateAssignments fetch_two_labs (snd (updateAssignments fetch_two_labs course_db 1)) 1 =
     updateAssignments fetch_two_labs course_db 1 \<and>
   updateAssignments fetch_two_labs course_db 1 =
     (None, course_db\<lparr>assignments :=
              [lab_assignment 1 ''lab1'' ''2024-09-01T23:59:00'' 1,
               lab_assignment 2 ''lab2'' ''2024-10-01T23:59:00'' 1]\<rparr>) \<and>
   distinct (map assignment_key
       (assignments (snd (updateAssignments fetch_two_labs course_db 1))))"
proof -
  have d: "distinct (map assignment_key (assignments course_db))"
    by (simp add: course_db_def)
  have u: "updateAssignments fetch_two_labs course_db 1 =
     (None, course_db\<lparr>assignments :=
              [lab_assignment 1 ''lab1'' ''2024-09-01T23:59:00'' 1,
               lab_assignment 2 ''lab2'' ''2024-10-01T23:59:00'' 1]\<rparr>)"
    by code_simp
  from updateAssignments_idempotent [of fetch_two_labs course_db 1] d u
  show ?thesis by simp
qed

subsection \<open>The import of a rubric\<close>

lemma removeOld_criteria_frame:
  "removeOld_criteria db cs = db\<lparr>criteria := criteria (removeOld_criteria db cs)\<rparr>"
proof (induction cs arbitrary: db)
  case Nil
  show ?case by simp
next
  case (Cons c cs)
  show ?case
  proof (cases "gc_ID c \<in> set (undeletable_criteria db)")
    case True
    then show ?thesis
      using Cons.IH [of db] by (simp add: DeleteCriterion_def)
  next
    case False
    let ?db = "db\<lparr>criteria := filter (\<lambda>r. gc_ID r \<noteq> gc_ID c) (criteria db)\<rparr>"
    have "removeOld_criteria ?db cs = ?db\<lparr>criteria := criteria (removeOld_criteria ?db cs)\<rparr>"
      by (rule Cons.IH)
    then have "removeOld_criteria ?db cs = db\<lparr>criteria := criteria (removeOld_criteria ?db cs)\<rparr>"
      by simp
    with False show ?thesis
      by (simp add: DeleteCriterion_def)
  qed
qed

lemma removeOld_criteria_criteria:
  "criteria (removeOld_criteria db cs) =
     filter (\<lambda>r. \<not> (gc_ID r \<in> gc_ID ` set cs \<and>
                    gc_ID r \<notin> set (undeletable_criteria db)))
       (criteria db)"
proof (induction cs arbitrary: db)
  case Nil
  show ?case by simp
next
  case (Cons c cs)
  show ?case
    by (auto simp: DeleteCriterion_def Cons.IH intro!: filter_cong)
qed

lemma removeOld_criteria_eq:
  "removeOld_criteria db cs =
     db\<lparr>criteria :=
          filter (\<lambda>r. \<not> (gc_ID r \<in> gc_ID ` set cs \<and>
                         gc_ID r \<notin> set (undeletable_criteria db)))
            (criteria db)\<rparr>"
  using removeOld_criteria_frame [of db cs]
  unfolding removeOld_criteria_criteria .

lemma removeOld_benchmarks_frame:
  "removeOld_benchmarks db bms =
     db\<lparr>criteria := criteria (removeOld_benchmarks db bms),
        benchmarks := benchmarks (removeOld_benchmarks db bms)\<rparr>"
proof (induction bms arbitrary: db)
  case Nil
  show ?case by simp
next
  case (Cons bm bms)
  let ?db1 = "removeOld_criteria db (gb_Criteria bm)"
  let ?db2 = "?db1\<lparr>benchmarks := filter (\<lambda>r. gb_ID r \<noteq> gb_ID bm) (benchmarks ?db1)\<rparr>"
  have f1: "?db1 = db\<lparr>criteria := criteria ?db1\<rparr>"
    by (rule removeOld_criteria_frame)
  show ?case
  proof (cases "gb_ID bm \<in> set (undeletable_benchmarks ?db1)")
    case True
    have "removeOld_benchmarks ?db1 bms =
        ?db1\<lparr>criteria := criteria (removeOld_benchmarks ?db1 bms),
             benchmarks := benchmarks (removeOld_benchmarks ?db1 bms)\<rparr>"
      by (rule Cons.IH)
    then have "removeOld_benchmarks ?db1 bms =
        db\<lparr>criteria := criteria (removeOld_benchmarks ?db1 bms),
           benchmarks := benchmarks (removeOld_benchmarks ?db1 bms)\<rparr>"
      by (subst (asm) (2) f1) simp
    with True show ?thesis
      by (simp add: DeleteBenchmark_def Let_def)
  next
    case False
    have "removeOld_benchmarks ?db2 bms =
        ?db2\<lparr>criteria := criteria (removeOld_benchmarks ?db2 bms),
             benchmarks := benchmarks (removeOld_benchmarks ?db2 bms)\<rparr>"
      by (rule Cons.IH)
    then have "removeOld_benchmarks ?db2 bms =
        db\<lparr>criteria := criteria (removeOld_benchmarks ?db2 bms),
           benchmarks := benchmarks (removeOld_benchmarks ?db2 bms)\<rparr>"
      by (subst (asm) (3) f1) simp
    with False show ?thesis
      by (simp add: DeleteBenchmark_def Let_def)
  qed
qed

lemma removeOld_benchmarks_criteria:
  "criteria (removeOld_benchmarks db bms) =
     filter (\<lambda>r. \<not> (gc_ID r \<in> gc_ID ` set (concat (map gb_Criteria bms)) \<and>
                    gc_ID r \<notin> set (undeletable_criteria db)))
       (criteria db)"
proof (induction bms arbitrary: db)
  case Nil
  show ?case by simp
next
  case (Cons bm bms)
  show ?case
    by (auto simp: DeleteBenchmark_def Let_def Cons.IH removeOld_criteria_eq image_Un
        simp del: set_concat intro!: filter_cong)
qed

lemma removeOld_benchmarks_benchmarks:
  "benchmarks (removeOld_benchmarks db bms) =
     filter (\<lambda>r. \<not> (gb_ID r \<in> gb_ID ` set bms \<and>
                    gb_ID r \<notin> set (undeletable_benchmarks db)))
       (benchmarks db)"
proof (induction bms arbitrary: db)
  case Nil
  show ?case by simp
next
  case (Cons bm bms)
  show ?case
    by (auto simp: DeleteBenchmark_def Let_def Cons.IH removeOld_criteria_eq
        intro!: filter_cong)
qed

lemma removeOld_benchmarks_eq:
  "removeOld_benchmarks db bms =
     db\<lparr>criteria :=
          filter (\<lambda>r. \<not> (gc_ID r \<in> gc_ID ` set (concat (map gb_Criteria bms)) \<and>
                         gc_ID r \<notin> set (undeletable_criteria db)))
            (criteria db),
        benchmarks :=
          filter (\<lambda>r. \<not> (gb_ID r \<in> gb_ID ` set bms \<and>
                         gb_ID r \<notin> set (undeletable_benchmarks db)))
            (benchmarks db)\<rparr>"
  using removeOld_benchmarks_frame [of db bms]
  unfolding removeOld_benchmarks_criteria removeOld_benchmarks_benchmarks .

lemma removeOld_reviews_eq:
  "removeOld_reviews db subs =
     (None, db\<lparr>reviews :=
        filter (\<lambda>r. \<not> list_ex (\<lambda>s. matches (sub_ID s) (rv_SubmissionID r)) subs)
          (reviews db)\<rparr>)"
proof (induction subs arbitrary: db)
  case Nil
  show ?case by simp
next
  case (Cons s subs)
  show ?case
    by (auto simp: DeleteReview_def Cons.IH matches_def intro!: filter_cong)
qed

lemma loadCriteria_criteria_eq:
  "loadCriteria_criteria db benchmarkID cs =
     (Inr (number_criteria (next_criterion_ID db) benchmarkID cs),
      db\<lparr>criteria := criteria db @ number_criteria (next_criterion_ID db) benchmarkID cs,
         next_criterion_ID := next_criterion_ID db + length cs\<rparr>)"
proof (induction cs arbitrary: db)
  case Nil
  show ?case by simp
next
  case (Cons c cs)
  show ?case
    by (simp add: CreateCriterion_def Let_def Cons.IH)
qed

lemma loadCriteria_benchmarks_eq:
  "loadCriteria_benchmarks db assignmentID bms =
     (Inr (number_benchmarks (next_benchmark_ID db) (next_criterion_ID db) assignmentID bms),
      db\<lparr>benchmarks := benchmarks db @
            map (\<lambda>b. b\<lparr>gb_Criteria := []\<rparr>)
              (number_benchmarks (next_benchmark_ID db) (next_criterion_ID db) assignmentID bms),
         criteria := criteria db @
            concat (map gb_Criteria
              (number_benchmarks (next_benchmark_ID db) (next_criterion_ID db) assignmentID bms)),
         next_benchmark_ID := next_benchmark_ID db + length bms,
         next_criterion_ID := next_criterion_ID db + length (concat (map gb_Criteria bms))\<rparr>)"
proof (induction bms arbitrary: db)
  case Nil
  show ?case by simp
next
  case (Cons bm bms)
  show ?case
    by (simp add: CreateBenchmark_def Let_def loadCriteria_criteria_eq Cons.IH)
qed

lemma number_criteria_props:
  "c \<in> set (number_criteria n benchmarkID cs) \<Longrightarrow>
   gc_BenchmarkID c = benchmarkID \<and> n \<le> gc_ID c"
proof (induction cs arbitrary: n)
  case Nil
  then show ?case by simp
next
  case (Cons a cs)
  from Cons.prems consider "c = a\<lparr>gc_BenchmarkID := benchmarkID, gc_ID := n\<rparr>"
    | "c \<in> set (number_criteria (Suc n) benchmarkID cs)"
    by auto
  then show ?case
  proof cases
    case 1
    then show ?thesis by simp
  next
    case 2
    from Cons.IH[OF 2] show ?thesis by simp
  qed
qed

lemma number_criteria_content:
  "map gc_Description (number_criteria n benchmarkID cs) = map gc_Description cs"
  by (induction cs arbitrary: n) auto

lemma number_benchmarks_props:
  "b \<in> set (number_benchmarks nb nc assignmentID bms) \<Longrightarrow>
   gb_AssignmentID b = assignmentID \<and> nb \<le> gb_ID b \<and>
   (\<forall>c\<in>set (gb_Criteria b). gc_BenchmarkID c = gb_ID b \<and> nc \<le> gc_ID c)"
proof (induction bms arbitrary: nb nc)
  case Nil
  then show ?case by simp
next
  case (Cons bm bms)
  from Cons.prems consider
    (hd) "b = bm\<lparr>gb_AssignmentID := assignmentID, gb_ID := nb,
                 gb_Criteria := number_criteria nc nb (gb_Criteria bm)\<rparr>"
    | (tl) "b \<in> set (number_benchmarks (Suc nb) (nc + length (gb_Criteria bm)) assignmentID bms)"
    by auto
  then show ?case
  proof cases
    case hd
    then show ?thesis by (auto dest: number_criteria_props)
  next
    case tl
    from Cons.IH[OF tl] show ?thesis by auto
  qed
qed

lemma number_benchmarks_distinct:
  "distinct (map gb_ID (number_benchmarks nb nc assignmentID bms))"
proof (induction bms arbitrary: nb nc)
  case Nil
  show ?case by simp
next
  case (Cons bm bms)
  have "nb \<notin> gb_ID ` set (number_benchmarks (Suc nb) (nc + length (gb_Criteria bm)) assignmentID bms)"
    using number_benchmarks_props by fastforce
  with Cons.IH show ?case by simp
qed

lemma number_benchmarks_content:
  "rubric_content (number_benchmarks nb nc assignmentID bms) = rubric_content bms"
  by (induction bms arbitrary: nb nc) (simp_all add: rubric_content_def number_criteria_content)

lemma filter_concat_own:
  assumes "distinct (map f xs)"
    and "\<forall>x\<in>set xs. \<forall>c\<in>set (g x). h c = f x"
    and "x \<in> set xs"
  shows "filter (\<lambda>c. h c = f x) (concat (map g xs)) = g x"
  using assms
proof (induction xs)
  case Nil
  then show ?case by simp
next
  case (Cons y ys)
  show ?case
  proof (cases "x = y")
    case True
    have own: "filter (\<lambda>c. h c = f y) (g y) = g y"
      using Cons.prems(2) by (auto intro: filter_True)
    have fresh: "f y \<notin> f ` set ys"
      using Cons.prems(1) by simp
    have "h c \<noteq> f y" if "c \<in> set (concat (map g ys))" for c
    proof -
      from that obtain z where z: "z \<in> set ys" "c \<in> set (g z)" by auto
      with Cons.prems(2) have "h c = f z" by simp
      with fresh z(1) show ?thesis by (metis imageI)
    qed
    then have "filter (\<lambda>c. h c = f y) (concat (map g ys)) = []"
      unfolding filter_empty_conv by blast
    with own True show ?thesis by simp
  next
    case False
    with Cons.prems have x: "x \<in> set ys" and d: "distinct (map f ys)"
      and o: "\<forall>x\<in>set ys. \<forall>c\<in>set (g x). h c = f x" by auto
    have "f y \<notin> f ` set ys"
      using Cons.prems(1) by simp
    with x have "f x \<noteq> f y"
      by (metis imageI)
    then have "filter (\<lambda>c. h c = f x) (g y) = []"
      using Cons.prems(2) by (auto simp: filter_empty_conv)
    with Cons.IH[OF d o x] show ?thesis by simp
  qed
qed

lemma removeOldCriteriaAndReviews_eq:
  "removeOldCriteriaAndReviews db assignment =
     (None,
      db\<lparr>criteria :=
           filter (\<lambda>r. \<not> (gc_ID r \<in> gc_ID ` set (concat (map gb_Criteria
                                     (as_GradingBenchmarks assignment))) \<and>
                          gc_ID r \<notin> set (undeletable_criteria db)))
             (criteria db),
         benchmarks :=
           filter (\<lambda>r. \<not> (gb_ID r \<in> gb_ID ` set (as_GradingBenchmarks assignment) \<and>
                          gb_ID r \<notin> set (undeletable_benchmarks db)))
             (benchmarks db),
         reviews :=
           filter (\<lambda>r. \<not> list_ex (\<lambda>s. matches (sub_ID s) (rv_SubmissionID r))
                            (filter (\<lambda>s. matches (as_ID assignment) (sub_AssignmentID s))
                               (submissions db)))
             (reviews db)\<rparr>)"
  unfolding removeOldCriteriaAndReviews_def Let_def removeOld_benchmarks_eq GetSubmissions_def
  by (simp add: removeOld_reviews_eq list_ex_iff matches_def del: set_concat)

lemma GetAssignment_loaded:
  "GetAssignment db query = Inr assignment \<Longrightarrow>
   as_GradingBenchmarks assignment = benchmarks_of db (as_ID assignment)"
  by (auto simp: GetAssignment_def split: option.splits)

lemma benchmarks_of_IDs:
  "gb_ID ` set (benchmarks_of db assignmentID) =
   gb_ID ` {b \<in> set (benchmarks db). gb_AssignmentID b = assignmentID}"
  by (auto simp: benchmarks_of_def image_iff)

lemma benchmarks_of_criteria:
  "set (concat (map gb_Criteria (benchmarks_of db assignmentID))) \<subseteq> set (criteria db)"
  by (auto simp: benchmarks_of_def criteria_of_def)

text \<open>
  The import keeps the sequences ahead of the rows: the identifiers it generates are
  below the next ones of the sequences it leaves.
\<close>

lemma number_criteria_upper:
  "c \<in> set (number_criteria n benchmarkID cs) \<Longrightarrow> gc_ID c < n + length cs"
proof (induction cs arbitrary: n)
  case Nil
  then show ?case by simp
next
  case (Cons a cs)
  from Cons.prems consider "c = a\<lparr>gc_BenchmarkID := benchmarkID, gc_ID := n\<rparr>"
    | "c \<in> set (number_criteria (Suc n) benchmarkID cs)"
    by auto
  then show ?case
  proof cases
    case 1
    then show ?thesis by simp
  next
    case 2
    from Cons.IH[OF 2] show ?thesis by simp
  qed
qed

lemma number_benchmarks_upper:
  "b \<in> set (number_benchmarks nb nc assignmentID bms) \<Longrightarrow>
   gb_ID b < nb + length bms \<and>
   (\<forall>c\<in>set (gb_Criteria b). gc_ID c < nc + length (concat (map gb_Criteria bms)))"
proof (induction bms arbitrary: nb nc)
  case Nil
  then show ?case by simp
next
  case (Cons bm bms)
  from Cons.prems consider
    (hd) "b = bm\<lparr>gb_AssignmentID := assignmentID, gb_ID := nb,
                 gb_Criteria := number_criteria nc nb (gb_Criteria bm)\<rparr>"
    | (tl) "b \<in> set (number_benchmarks (Suc nb) (nc + length (gb_Criteria bm)) assignmentID bms)"
    by auto
  then show ?case
  proof cases
    case hd
    then show ?thesis by (auto dest!: number_criteria_upper)
  next
    case tl
    from Cons.IH[OF tl] show ?thesis by auto
  qed
qed

lemma removeOldCriteriaAndReviews_ahead:
  "sequences_ahead db \<Longrightarrow> sequences_ahead (snd (removeOldCriteriaAndReviews db assignment))"
  unfolding removeOldCriteriaAndReviews_eq sequences_ahead_def
  by (simp add: list_all_iff del: set_concat)

lemma loadCriteria_benchmarks_ahead:
  assumes "sequences_ahead db"
  shows "sequences_ahead (snd (loadCriteria_benchmarks db assignmentID bms))"
proof -
  let ?new = "number_benchmarks (next_benchmark_ID db) (next_criterion_ID db) assignmentID bms"
  have b: "gb_ID b < next_benchmark_ID db + length bms" if "b \<in> set ?new" for b
    using number_benchmarks_upper[OF that] by simp
  have c: "gc_ID c < next_criterion_ID db + length (concat (map gb_Criteria bms)) \<and>
           gc_BenchmarkID c < next_benchmark_ID db + length bms"
    if "c \<in> set (concat (map gb_Criteria ?new))" for c
  proof -
    from that obtain b where bb: "b \<in> set ?new" "c \<in> set (gb_Criteria b)" by auto
    from number_benchmarks_upper[OF bb(1)] number_benchmarks_props[OF bb(1)] bb(2)
    show ?thesis by auto
  qed
  show ?thesis
    using assms b c unfolding loadCriteria_benchmarks_eq sequences_ahead_def
    by (auto simp: list_all_iff simp del: set_concat)
qed

lemma loadCriteria_keeps_sequences_ahead:
  assumes "sequences_ahead db"
  shows "sequences_ahead (snd (loadCriteria GetFileContent Unmarshal db request))"
  using assms removeOldCriteriaAndReviews_ahead[OF assms]
  by (auto simp: loadCriteria_def Let_def removeOldCriteriaAndReviews_eq
      intro!: loadCriteria_benchmarks_ahead split: sum.splits prod.splits option.splits)

text \<open>
  C1. Take a database whose sequences are ahead of its rows and an assignment that has
  stored benchmarks, none of which and none of whose criteria the database refuses to
  delete, and let \<open>loadCriteria\<close> succeed. Then the criteria file was fetched and
  decoded; the returned rubric has the content of the decoded one; reading the
  benchmarks of the assignment back from the database gives exactly the returned
  rubric, criteria included; no identifier of an old benchmark or old criterion is
  left in the tables; and the old rubric and the reviews of the assignment's
  submissions were removed first: the database \<open>mid\<close> after the removal holds no
  review of a submission of the assignment, the new rubric is inserted into \<open>mid\<close>,
  and the final database holds no such review either.
\<close>

theorem loadCriteria_replaces_rubric:
  assumes ahead: "sequences_ahead db"
    and found: "getAssignmentWithCourse db
                  \<lparr>as_ID = lcr_AssignmentID request, as_CourseID = lcr_CourseID request,
                   as_Name = [], as_Deadline = [], as_Reviewers = 0,
                   as_GradingBenchmarks = []\<rparr> False = Inr (assignment, course)"
    and old: "as_GradingBenchmarks assignment \<noteq> []"
    and deletable: "\<forall>b\<in>set (as_GradingBenchmarks assignment).
                      gb_ID b \<notin> set (undeletable_benchmarks db) \<and>
                      (\<forall>c\<in>set (gb_Criteria b). gc_ID c \<notin> set (undeletable_criteria db))"
    and ok: "loadCriteria GetFileContent Unmarshal db request = (Inr new, db')"
  shows "\<exists>criteriaString parsed mid.
      GetFileContent \<lparr>fo_Path = filepath_Join (as_Name assignment) criteriaFile,
                      fo_Owner = crs_OrganizationPath course,
                      fo_Repository = TestsRepo\<rparr> = Inr criteriaString \<and>
      Unmarshal criteriaString = Inr parsed \<and>
      rubric_content new = rubric_content parsed \<and>
      benchmarks_of db' (as_ID assignment) = new \<and>
      (\<forall>b\<in>set (as_GradingBenchmarks assignment).
          gb_ID b \<notin> gb_ID ` set (benchmarks db') \<and>
          (\<forall>c\<in>set (gb_Criteria b). gc_ID c \<notin> gc_ID ` set (criteria db'))) \<and>
      removeOldCriteriaAndReviews db assignment = (None, mid) \<and>
      (\<forall>s\<in>set (submissions mid).
          sub_AssignmentID s = as_ID assignment \<longrightarrow> reviews_of mid (sub_ID s) = []) \<and>
      loadCriteria_benchmarks mid (as_ID assignment) parsed = (Inr new, db') \<and>
      (\<forall>s\<in>set (submissions db').
          sub_AssignmentID s = as_ID assignment \<longrightarrow> reviews_of db' (sub_ID s) = [])"
proof -
  define aid where "aid = as_ID assignment"
  define olds where "olds = as_GradingBenchmarks assignment"
  define mid where "mid = snd (removeOldCriteriaAndReviews db assignment)"
  have rm: "removeOldCriteriaAndReviews db assignment = (None, mid)"
    by (simp add: mid_def removeOldCriteriaAndReviews_eq)
  from found have "\<exists>q. GetAssignment db q = Inr assignment"
    by (auto simp: getAssignmentWithCourse_def split: sum.splits)
  then have olds_eq: "olds = benchmarks_of db aid"
    unfolding olds_def aid_def using GetAssignment_loaded by blast
  \<comment> \<open>the tables after the removal\<close>
  have mid_b: "benchmarks mid = filter (\<lambda>r. gb_ID r \<notin> gb_ID ` set olds) (benchmarks db)"
    and mid_c: "criteria mid =
        filter (\<lambda>r. gc_ID r \<notin> gc_ID ` set (concat (map gb_Criteria olds))) (criteria db)"
    and mid_r: "reviews mid =
        filter (\<lambda>r. \<not> list_ex (\<lambda>s. matches (sub_ID s) (rv_SubmissionID r))
                         (filter (\<lambda>s. matches aid (sub_AssignmentID s)) (submissions db)))
          (reviews db)"
    and mid_s: "submissions mid = submissions db"
    and mid_nb: "next_benchmark_ID mid = next_benchmark_ID db"
    and mid_nc: "next_criterion_ID mid = next_criterion_ID db"
  proof -
    have "filter (\<lambda>r. \<not> (gb_ID r \<in> gb_ID ` set olds \<and>
                          gb_ID r \<notin> set (undeletable_benchmarks db))) (benchmarks db) =
          filter (\<lambda>r. gb_ID r \<notin> gb_ID ` set olds) (benchmarks db)"
      using deletable unfolding olds_def by (intro filter_cong refl) force
    then show "benchmarks mid = filter (\<lambda>r. gb_ID r \<notin> gb_ID ` set olds) (benchmarks db)"
      unfolding mid_def olds_def removeOldCriteriaAndReviews_eq by simp
    have "filter (\<lambda>r. \<not> (gc_ID r \<in> gc_ID ` set (concat (map gb_Criteria olds)) \<and>
                          gc_ID r \<notin> set (undeletable_criteria db))) (criteria db) =
          filter (\<lambda>r. gc_ID r \<notin> gc_ID ` set (concat (map gb_Criteria olds))) (criteria db)"
      using deletable unfolding olds_def by (intro filter_cong refl) force
    then show "criteria mid =
        filter (\<lambda>r. gc_ID r \<notin> gc_ID ` set (concat (map gb_Criteria olds))) (criteria db)"
      unfolding mid_def olds_def removeOldCriteriaAndReviews_eq by (simp del: set_concat)
  qed (simp_all add: mid_def olds_def aid_def removeOldCriteriaAndReviews_eq)
  \<comment> \<open>the steps of the import\<close>
  from ok found old rm obtain criteriaString parsed where
    gf: "GetFileContent \<lparr>fo_Path = filepath_Join (as_Name assignment) criteriaFile,
                          fo_Owner = crs_OrganizationPath course,
                          fo_Repository = TestsRepo\<rparr> = Inr criteriaString"
    and um: "Unmarshal criteriaString = Inr parsed"
    and ins: "loadCriteria_benchmarks mid aid parsed = (Inr new, db')"
    unfolding aid_def by (auto simp: loadCriteria_def Let_def split: sum.splits)
  define nb where "nb = next_benchmark_ID mid"
  define nc where "nc = next_criterion_ID mid"
  from ins have new_eq: "new = number_benchmarks nb nc aid parsed"
    and db'_b: "benchmarks db' = benchmarks mid @ map (\<lambda>b. b\<lparr>gb_Criteria := []\<rparr>) new"
    and db'_c: "criteria db' = criteria mid @ concat (map gb_Criteria new)"
    and db'_r: "reviews db' = reviews mid"
    and db'_s: "submissions db' = submissions mid"
    unfolding loadCriteria_benchmarks_eq nb_def nc_def by auto
  \<comment> \<open>what the new messages carry\<close>
  have new_props: "gb_AssignmentID b = aid \<and> nb \<le> gb_ID b \<and>
      (\<forall>c\<in>set (gb_Criteria b). gc_BenchmarkID c = gb_ID b \<and> nc \<le> gc_ID c)"
    if "b \<in> set new" for b
    using that unfolding new_eq by (rule number_benchmarks_props)
  have new_distinct: "distinct (map gb_ID new)"
    unfolding new_eq by (rule number_benchmarks_distinct)
  have content: "rubric_content new = rubric_content parsed"
    unfolding new_eq by (rule number_benchmarks_content)
  \<comment> \<open>the sequences were ahead of the old rows\<close>
  have old_b: "gb_ID b < nb" if "b \<in> set (benchmarks db)" for b
    using ahead that unfolding sequences_ahead_def nb_def mid_nb by (auto simp: list_all_iff)
  have old_c: "gc_ID c < nc \<and> gc_BenchmarkID c < nb" if "c \<in> set (criteria db)" for c
    using ahead that unfolding sequences_ahead_def nb_def nc_def mid_nb mid_nc
    by (auto simp: list_all_iff)
  \<comment> \<open>no benchmark of the assignment survives the removal\<close>
  have gone: "filter (\<lambda>b. gb_AssignmentID b = aid) (benchmarks mid) = []"
    unfolding mid_b olds_eq benchmarks_of_IDs by (auto simp: filter_empty_conv)
  \<comment> \<open>exactly the new rubric is stored for the assignment\<close>
  have own: "criteria_of db' (gb_ID b) = gb_Criteria b" if b: "b \<in> set new" for b
  proof -
    have "filter (\<lambda>c. gc_BenchmarkID c = gb_ID b) (criteria mid) = []"
    proof -
      have "gc_BenchmarkID c \<noteq> gb_ID b" if "c \<in> set (criteria mid)" for c
      proof -
        from that have "c \<in> set (criteria db)" unfolding mid_c by simp
        then have "gc_BenchmarkID c < nb" using old_c by blast
        moreover have "nb \<le> gb_ID b" using new_props[OF b] by blast
        ultimately show ?thesis by simp
      qed
      then show ?thesis unfolding filter_empty_conv by blast
    qed
    moreover have "filter (\<lambda>c. gc_BenchmarkID c = gb_ID b) (concat (map gb_Criteria new)) =
        gb_Criteria b"
      using new_distinct _ b
    proof (rule filter_concat_own)
      show "\<forall>x\<in>set new. \<forall>c\<in>set (gb_Criteria x). gc_BenchmarkID c = gb_ID x"
        using new_props by blast
    qed
    ultimately show ?thesis
      unfolding criteria_of_def db'_c by simp
  qed
  have "filter (\<lambda>b. gb_AssignmentID b = aid) (benchmarks db') =
      map (\<lambda>b. b\<lparr>gb_Criteria := []\<rparr>) new"
  proof -
    have "filter (\<lambda>b. gb_AssignmentID b = aid) (map (\<lambda>b. b\<lparr>gb_Criteria := []\<rparr>) new) =
        map (\<lambda>b. b\<lparr>gb_Criteria := []\<rparr>) new"
      using new_props by (auto intro!: filter_True)
    then show ?thesis
      unfolding db'_b using gone by simp
  qed
  then have "benchmarks_of db' aid =
      map (\<lambda>b. b\<lparr>gb_Criteria := criteria_of db' (gb_ID b)\<rparr>) new"
    unfolding benchmarks_of_def by (simp add: comp_def)
  also have "\<dots> = new"
    by (rule map_idI) (simp add: own)
  finally have stored: "benchmarks_of db' aid = new" .
  \<comment> \<open>nothing of the old rubric is left\<close>
  have leftover: "gb_ID b \<notin> gb_ID ` set (benchmarks db') \<and>
      (\<forall>c\<in>set (gb_Criteria b). gc_ID c \<notin> gc_ID ` set (criteria db'))"
    if b: "b \<in> set olds" for b
  proof
    have "gb_ID b \<in> gb_ID ` set (benchmarks db)"
      using b unfolding olds_eq using benchmarks_of_IDs[of db aid] by blast
    then have "gb_ID b < nb" using old_b by auto
    then have "gb_ID b \<notin> gb_ID ` set new"
      using new_props by fastforce
    moreover have "gb_ID b \<notin> gb_ID ` set (benchmarks mid)"
    proof
      assume "gb_ID b \<in> gb_ID ` set (benchmarks mid)"
      then obtain x where x: "x \<in> set (benchmarks mid)" "gb_ID x = gb_ID b"
        by (metis imageE)
      from x(1) have "gb_ID x \<notin> gb_ID ` set olds"
        unfolding mid_b by simp
      with b x(2) show False by (metis imageI)
    qed
    ultimately show "gb_ID b \<notin> gb_ID ` set (benchmarks db')"
      unfolding db'_b by (auto simp: image_iff)
    show "\<forall>c\<in>set (gb_Criteria b). gc_ID c \<notin> gc_ID ` set (criteria db')"
    proof
      fix c assume c: "c \<in> set (gb_Criteria b)"
      with b have cc: "c \<in> set (concat (map gb_Criteria olds))" by auto
      then have "c \<in> set (criteria db)"
        unfolding olds_eq using benchmarks_of_criteria by blast
      then have "gc_ID c < nc" using old_c by blast
      then have "gc_ID c \<notin> gc_ID ` set (concat (map gb_Criteria new))"
        using new_props by fastforce
      moreover have "gc_ID c \<notin> gc_ID ` set (criteria mid)"
      proof
        assume "gc_ID c \<in> gc_ID ` set (criteria mid)"
        then obtain x where x: "x \<in> set (criteria mid)" "gc_ID x = gc_ID c"
          by (metis imageE)
        from x(1) have "gc_ID x \<notin> gc_ID ` set (concat (map gb_Criteria olds))"
          unfolding mid_c by simp
        with cc x(2) show False by (metis imageI)
      qed
      ultimately show "gc_ID c \<notin> gc_ID ` set (criteria db')"
        unfolding db'_c by (auto simp: image_iff)
    qed
  qed
  \<comment> \<open>the reviews of the assignment's submissions are gone before the insert\<close>
  have no_reviews: "reviews_of mid (sub_ID s) = []"
    if "s \<in> set (submissions mid)" "sub_AssignmentID s = aid" for s
    using that unfolding reviews_of_def mid_r mid_s
    by (auto simp: filter_empty_conv list_ex_iff matches_def)
  have no_reviews': "reviews_of db' (sub_ID s) = []"
    if "s \<in> set (submissions db')" "sub_AssignmentID s = aid" for s
    using that no_reviews unfolding reviews_of_def db'_r db'_s by simp
  from gf um content stored leftover rm no_reviews ins no_reviews'
  show ?thesis
    unfolding aid_def olds_def by blast
qed

theorem loadCriteria_replaces_rubric_witness:
  "sequences_ahead course_db \<and>
   getAssignmentWithCourse course_db
     \<lparr>as_ID = 1, as_CourseID = 1, as_Name = [], as_Deadline = [], as_Reviewers = 0,
      as_GradingBenchmarks = []\<rparr> False =
     Inr (lab1_loaded, \<lparr>crs_ID = 1, crs_OrganizationPath = ''course-org''\<rparr>) \<and>
   as_GradingBenchmarks lab1_loaded \<noteq> [] \<and>
   loadCriteria tests_repo decode_rubric course_db \<lparr>lcr_AssignmentID = 1, lcr_CourseID = 1\<rparr> =
     (Inr stored_rubric, imported_db) \<and>
   benchmarks_of imported_db 1 = stored_rubric \<and>
   rubric_content stored_rubric = rubric_content new_rubric \<and>
   reviews_of imported_db 1 = []"
proof -
  have a: "sequences_ahead course_db"
    by code_simp
  have f: "getAssignmentWithCourse course_db
     \<lparr>as_ID = lcr_AssignmentID \<lparr>lcr_AssignmentID = 1, lcr_CourseID = 1\<rparr>,
      as_CourseID = lcr_CourseID \<lparr>lcr_AssignmentID = 1, lcr_CourseID = 1\<rparr>,
      as_Name = [], as_Deadline = [], as_Reviewers = 0,
      as_GradingBenchmarks = []\<rparr> False =
     Inr (lab1_loaded, \<lparr>crs_ID = 1, crs_OrganizationPath = ''course-org''\<rparr>)"
    by code_simp
  have n: "as_GradingBenchmarks lab1_loaded \<noteq> []"
    by code_simp
  have l: "loadCriteria tests_repo decode_rubric course_db
      \<lparr>lcr_AssignmentID = 1, lcr_CourseID = 1\<rparr> = (Inr stored_rubric, imported_db)"
    by code_simp
  have i: "as_ID lab1_loaded = 1"
    by code_simp
  have s: "\<lparr>sub_ID = 1, sub_AssignmentID = 1, sub_Reviews = []\<rparr> \<in> set (submissions imported_db)"
    by (simp add: imported_db_def course_db_def)
  have d: "\<forall>b\<in>set (as_GradingBenchmarks lab1_loaded).
              gb_ID b \<notin> set (undeletable_benchmarks course_db) \<and>
              (\<forall>c\<in>set (gb_Criteria b). gc_ID c \<notin> set (undeletable_criteria course_db))"
    by (simp add: course_db_def)
  from loadCriteria_replaces_rubric [OF a f n d l] i s
  have "benchmarks_of imported_db 1 = stored_rubric \<and>
        reviews_of imported_db 1 = [] \<and>
        (\<exists>parsed. decode_rubric ''[rubric]'' = Inr parsed \<and>
           rubric_content stored_rubric = rubric_content parsed)"
    by (auto simp: tests_repo_def split: if_splits)
  moreover have "decode_rubric ''[rubric]'' = Inr new_rubric"
    by (simp add: decode_rubric_def)
  ultimately show ?thesis
    using a f n l by simp
qed

text \<open>
  The hypothesis on the deletions cannot be dropped. In the store below the deletion
  of criterion 1 and of benchmark 1 is refused. \<open>removeOldCriteriaAndReviews\<close> prints
  the two errors and goes on, \<open>loadCriteria\<close> returns the new rubric without an error,
  and the old benchmark and its criterion are still in the tables beside the new ones:
  reading the rubric of the assignment back gives the old benchmark followed by the
  new one.
\<close>

theorem loadCriteria_leftover_counterexample:
  "sequences_ahead (course_db\<lparr>undeletable_criteria := [1], undeletable_benchmarks := [1]\<rparr>) \<and>
   getAssignmentWithCourse
     (course_db\<lparr>undeletable_criteria := [1], undeletable_benchmarks := [1]\<rparr>)
     \<lparr>as_ID = 1, as_CourseID = 1, as_Name = [], as_Deadline = [], as_Reviewers = 0,
      as_GradingBenchmarks = []\<rparr> False =
     Inr (lab1_loaded, \<lparr>crs_ID = 1, crs_OrganizationPath = ''course-org''\<rparr>) \<and>
   as_GradingBenchmarks lab1_loaded \<noteq> [] \<and>
   fst (loadCriteria tests_repo decode_rubric
          (course_db\<lparr>undeletable_criteria := [1], undeletable_benchmarks := [1]\<rparr>)
          \<lparr>lcr_AssignmentID = 1, lcr_CourseID = 1\<rparr>) = Inr stored_rubric \<and>
   map gb_ID (benchmarks (snd (loadCriteria tests_repo decode_rubric
          (course_db\<lparr>undeletable_criteria := [1], undeletable_benchmarks := [1]\<rparr>)
          \<lparr>lcr_AssignmentID = 1, lcr_CourseID = 1\<rparr>))) = [1, 2] \<and>
   map gc_Description (criteria (snd (loadCriteria tests_repo decode_rubric
          (course_db\<lparr>undeletable_criteria := [1], undeletable_benchmarks := [1]\<rparr>)
          \<lparr>lcr_AssignmentID = 1, lcr_CourseID = 1\<rparr>))) =
     [''Old criterion'', ''Tests pass'', ''Readable''] \<and>
   benchmarks_of (snd (loadCriteria tests_repo decode_rubric
          (course_db\<lparr>undeletable_criteria := [1], undeletable_benchmarks := [1]\<rparr>)
          \<lparr>lcr_AssignmentID = 1, lcr_CourseID = 1\<rparr>)) 1 =
     as_GradingBenchmarks lab1_loaded @ stored_rubric"
  by code_simp

subsection \<open>Reading assignments and creating reviews\<close>

text \<open>
  C8. \<open>getAssignments\<close> returns the stored assignments of the course with each
  deadline replaced by its \<open>FixDeadline\<close> value, and the database it leaves is the
  database it was given: no row is rewritten.
\<close>

theorem getAssignments_read_only:
  "\<exists>allAssignments.
     getAssignments FixDeadline db courseID = (Inr allAssignments, db) \<and>
     map as_ID allAssignments =
       map as_ID (filter (\<lambda>a. as_CourseID a = courseID) (assignments db)) \<and>
     map as_Deadline allAssignments =
       map (\<lambda>a. FixDeadline (as_Deadline a))
         (filter (\<lambda>a. as_CourseID a = courseID) (assignments db))"
  by (simp add: getAssignments_def GetAssignmentsByCourse_def comp_def)

theorem getAssignments_read_only_witness:
  "getAssignments (take 10) course_db 1 =
     (Inr [lab1_loaded\<lparr>as_Deadline := ''2024-09-01''\<rparr>], course_db)"
proof -
  from getAssignments_read_only [of "take 10" course_db 1]
  obtain allAssignments where
    "getAssignments (take 10) course_db 1 = (Inr allAssignments, course_db)"
    by blast
  moreover have "fst (getAssignments (take 10) course_db 1) =
      Inr [lab1_loaded\<lparr>as_Deadline := ''2024-09-01''\<rparr>]"
    by code_simp
  ultimately show ?thesis by simp
qed

text \<open>
  C10. For a review whose submission and assignment are found: the reviews loaded
  with the submission are the stored reviews of that submission; when their number has
  reached the assignment's \<open>Reviewers\<close>, \<open>createReview\<close> returns an error and
  leaves the database as it was; below that number it stores the review, with a
  generated identifier and with \<open>Edited\<close> set to the formatted current time, and
  returns it.
\<close>

theorem createReview_cap:
  assumes "GetSubmission db \<lparr>sub_ID = rv_SubmissionID query, sub_AssignmentID = 0,
                             sub_Reviews = []\<rparr> = Inr submission"
    and "GetAssignment db \<lparr>as_ID = sub_AssignmentID submission, as_CourseID = 0,
                            as_Name = [], as_Deadline = [], as_Reviewers = 0,
                            as_GradingBenchmarks = []\<rparr> = Inr assignment"
  shows "sub_Reviews submission = reviews_of db (sub_ID submission) \<and>
     (unat (as_Reviewers assignment) \<le> length (sub_Reviews submission) \<longrightarrow>
        (\<exists>err. createReview now db query = (Inl err, db))) \<and>
     (length (sub_Reviews submission) < unat (as_Reviewers assignment) \<longrightarrow>
        (\<exists>review db'. createReview now db query = (Inr review, db') \<and>
           review = query\<lparr>rv_ID := next_review_ID db, rv_Edited := time_Format now\<rparr> \<and>
           db' = db\<lparr>reviews := reviews db @ [review],
                    next_review_ID := Suc (next_review_ID db)\<rparr>))"
proof -
  from assms(1) have "sub_Reviews submission = reviews_of db (sub_ID submission)"
    by (auto simp: GetSubmission_def split: option.splits)
  moreover have "\<exists>err. createReview now db query = (Inl err, db)"
    if "unat (as_Reviewers assignment) \<le> length (sub_Reviews submission)"
    using that assms by (simp add: createReview_def)
  moreover have "\<exists>review db'. createReview now db query = (Inr review, db') \<and>
           review = query\<lparr>rv_ID := next_review_ID db, rv_Edited := time_Format now\<rparr> \<and>
           db' = db\<lparr>reviews := reviews db @ [review],
                    next_review_ID := Suc (next_review_ID db)\<rparr>"
    if "length (sub_Reviews submission) < unat (as_Reviewers assignment)"
    using that assms by (simp add: createReview_def CreateReview_def Let_def)
  ultimately show ?thesis by blast
qed

theorem createReview_cap_witness:
  "GetSubmission course_db \<lparr>sub_ID = 1, sub_AssignmentID = 0, sub_Reviews = []\<rparr> =
     Inr \<lparr>sub_ID = 1, sub_AssignmentID = 1,
          sub_Reviews = [\<lparr>rv_ID = 1, rv_SubmissionID = 1, rv_Edited = ''31 Aug 10:00''\<rparr>]\<rparr> \<and>
   GetAssignment course_db \<lparr>as_ID = 1, as_CourseID = 0, as_Name = [], as_Deadline = [],
                            as_Reviewers = 0, as_GradingBenchmarks = []\<rparr> = Inr lab1_loaded \<and>
   unat (as_Reviewers lab1_loaded) = 1 \<and>
   (\<exists>err. createReview evening course_db
             \<lparr>rv_ID = 0, rv_SubmissionID = 1, rv_Edited = []\<rparr> = (Inl err, course_db)) \<and>
   GetSubmission (course_db\<lparr>reviews := []\<rparr>)
       \<lparr>sub_ID = 1, sub_AssignmentID = 0, sub_Reviews = []\<rparr> =
     Inr \<lparr>sub_ID = 1, sub_AssignmentID = 1, sub_Reviews = []\<rparr> \<and>
   createReview evening (course_db\<lparr>reviews := []\<rparr>)
       \<lparr>rv_ID = 0, rv_SubmissionID = 1, rv_Edited = []\<rparr> =
     (Inr \<lparr>rv_ID = 2, rv_SubmissionID = 1, rv_Edited = ''01 Sep 21:05''\<rparr>,
      course_db\<lparr>reviews := [\<lparr>rv_ID = 2, rv_SubmissionID = 1, rv_Edited = ''01 Sep 21:05''\<rparr>],
                next_review_ID := 3\<rparr>)"
proof -
  let ?q = "\<lparr>rv_ID = 0, rv_SubmissionID = 1, rv_Edited = []\<rparr>"
  let ?full = "\<lparr>sub_ID = 1, sub_AssignmentID = 1,
          sub_Reviews = [\<lparr>rv_ID = 1, rv_SubmissionID = 1, rv_Edited = ''31 Aug 10:00''\<rparr>]\<rparr>"
  let ?none = "\<lparr>sub_ID = 1, sub_AssignmentID = 1, sub_Reviews = []\<rparr>"
  have s1: "GetSubmission course_db \<lparr>sub_ID = rv_SubmissionID ?q, sub_AssignmentID = 0,
       sub_Reviews = []\<rparr> = Inr ?full"
    by code_simp
  have a1: "GetAssignment course_db \<lparr>as_ID = sub_AssignmentID ?full, as_CourseID = 0,
       as_Name = [], as_Deadline = [], as_Reviewers = 0, as_GradingBenchmarks = []\<rparr> =
       Inr lab1_loaded"
    by code_simp
  have s2: "GetSubmission (course_db\<lparr>reviews := []\<rparr>)
       \<lparr>sub_ID = rv_SubmissionID ?q, sub_AssignmentID = 0, sub_Reviews = []\<rparr> = Inr ?none"
    by code_simp
  have a2: "GetAssignment (course_db\<lparr>reviews := []\<rparr>)
       \<lparr>as_ID = sub_AssignmentID ?none, as_CourseID = 0,
       as_Name = [], as_Deadline = [], as_Reviewers = 0, as_GradingBenchmarks = []\<rparr> =
       Inr lab1_loaded"
    by code_simp
  have r: "unat (as_Reviewers lab1_loaded) = 1"
    by (simp add: lab1_loaded_def lab_assignment_def)
  have t: "time_Format evening = ''01 Sep 21:05''"
    by code_simp
  have n: "next_review_ID course_db = 2" "reviews course_db =
      [\<lparr>rv_ID = 1, rv_SubmissionID = 1, rv_Edited = ''31 Aug 10:00''\<rparr>]"
    by (simp_all add: course_db_def)
  from createReview_cap [OF s1 a1, of evening] r
  have full: "\<exists>err. createReview evening course_db ?q = (Inl err, course_db)"
    by simp
  from createReview_cap [OF s2 a2, of evening] r t n
  have free: "createReview evening (course_db\<lparr>reviews := []\<rparr>) ?q =
     (Inr \<lparr>rv_ID = 2, rv_SubmissionID = 1, rv_Edited = ''01 Sep 21:05''\<rparr>,
      course_db\<lparr>reviews := [\<lparr>rv_ID = 2, rv_SubmissionID = 1, rv_Edited = ''01 Sep 21:05''\<rparr>],
                next_review_ID := 3\<rparr>)"
    by auto
  from s1 a1 s2 r full free show ?thesis by simp
qed

section \<open>Properties of the facade\<close>

text \<open>
  \<open>CreateGroup\<close> answers a failure of \<open>createGroup\<close> that is not a status error
  with the generic internal error.
\<close>

lemma CreateGroup_generic:
  "createGroup req usr = Inl (Errorf msg) \<Longrightarrow>
   CreateGroup (Inr usr) createGroup RemoveRemoteIDs req =
     Inl (Status Internal ''server error; check server logs for details'')"
  by (simp add: CreateGroup_def)

text \<open>
  C7. \<open>GetAssignments\<close> and \<open>CreateEnrollment\<close> do not do so: an error of the
  function they delegate to reaches the caller unchanged, with its own text.
\<close>

theorem GetAssignments_passes_error_text:
  "GetAssignments (\<lambda>req db. Inl (Errorf ''sql: database is closed'')) db req =
     Inl (Errorf ''sql: database is closed'') \<and>
   CreateEnrollment (\<lambda>req db. Some (Errorf ''sql: database is closed'')) db req =
     ((), Some (Errorf ''sql: database is closed''))"
  by (simp add: GetAssignments_def CreateEnrollment_def)

end
